theory Spec2Isabelle
  imports Complex_Main
begin

section \<open>Python values used by the interview services\<close>

text \<open>
  Python strings are modelled as \<^typ>\<open>string\<close>, one \<^typ>\<open>char\<close> per code point; code
  points above 255 are outside the model. Exceptions are values of \<open>exn\<close>; a function
  that may raise returns \<open>exn + 'a\<close> with \<open>Inl\<close> for the raised exception.
\<close>

datatype exn =
    PortException
  | ValidationError
  | IndexError
  | KeyError
  | TypeError
  | ValueError
  | OverflowError
  | AttributeError

text \<open>\<open>xs[i]\<close> on a Python list: negative indices count from the end.\<close>

definition py_index :: "'a list \<Rightarrow> int \<Rightarrow> exn + 'a" where
  "py_index xs i =
     (if 0 \<le> i \<and> i < int (length xs) then Inr (xs ! nat i)
      else if i < 0 \<and> - int (length xs) \<le> i then Inr (xs ! nat (int (length xs) + i))
      else Inl IndexError)"

text \<open>\<open>sep.join(xs)\<close>.\<close>

fun join :: "string \<Rightarrow> string list \<Rightarrow> string" where
  "join sep [] = []"
| "join sep [x] = x"
| "join sep (x # y # ys) = x @ sep @ join sep (y # ys)"

text \<open>\<open>str(n)\<close> for an integer, as an f-string renders it.\<close>

definition digit_char :: "nat \<Rightarrow> char" where
  "digit_char d = ''0123456789'' ! d"

fun decimal :: "nat \<Rightarrow> string" where
  "decimal n = (if 10 \<le> n then decimal (n div 10) @ [digit_char (n mod 10)] else [digit_char n])"

declare decimal.simps [simp del]

definition str_int :: "int \<Rightarrow> string" where
  "str_int i = (if 0 \<le> i then decimal (nat i) else CHR ''-'' # decimal (nat (- i)))"

text \<open>\<open>xs[-n:]\<close>: the last \<open>n\<close> elements, the whole list when it is shorter.\<close>

definition last_n :: "nat \<Rightarrow> 'a list \<Rightarrow> 'a list" where
  "last_n n xs = drop (length xs - n) xs"

section \<open>models/schemas.py\<close>

record resume_skills =
  languages :: "string list"
  frameworks :: "string list"
  tools :: "string list"
  databases :: "string list"
  cloud_platforms :: "string list"

text \<open>
  Of \<open>CandidateProfile\<close> the services read \<open>name\<close>, \<open>skills\<close> and
  \<open>years_of_experience\<close>; the remaining fields (email, phone, summary, experience,
  education, projects) are never read by the code modelled here.
\<close>

record candidate_profile =
  name :: string
  skills :: resume_skills
  years_of_experience :: "int option"

record interview_phase =
  ph_number :: int
  ph_name :: string
  ph_description :: string
  max_questions :: int

datatype role = System | Assistant | User

definition role_str :: "role \<Rightarrow> string" where
  "role_str r = (case r of System \<Rightarrow> ''system'' | Assistant \<Rightarrow> ''assistant'' | User \<Rightarrow> ''user'')"

text \<open>\<open>InterviewMessage\<close>; its \<open>timestamp\<close> (wall-clock time) is left out.\<close>

record interview_message =
  role :: role
  content :: string

datatype status = Active | Completed | Paused

section \<open>The text-generation port\<close>

text \<open>
  A request is the \<open>messages\<close> list handed to \<open>NVIDIAClient.chat_completion\<close>: dicts with
  the keys \<open>role\<close> and \<open>content\<close>, here pairs. A port stands for one call of
  \<open>chat_completion\<close> followed by \<open>extract_response_text\<close>: it raises (\<open>Inl\<close>), or returns
  the \<open>content\<close> of the first choice, which is a string or \<open>None\<close> (JSON \<open>null\<close>).
  Contents of any other JSON type are excluded by the annotations \<open>-> str\<close> and
  \<open>-> Optional[str]\<close> of the source. The constant sampling parameters
  (\<open>model_type\<close>, \<open>temperature\<close>) are not part of the modelled request.
\<close>

type_synonym chat_message = "string \<times> string"
type_synonym port = "chat_message list \<Rightarrow> exn + string option"

section \<open>services/interview_agent.py\<close>

definition PHASES :: "interview_phase list" where
  "PHASES =
    [\<lparr>ph_number = 1, ph_name = ''Warm-up & Background'',
      ph_description = ''Getting to know the candidate and their background'',
      max_questions = 3\<rparr>,
     \<lparr>ph_number = 2, ph_name = ''Technical Depth'',
      ph_description = ''Deep dive into technical skills from the resume'',
      max_questions = 6\<rparr>,
     \<lparr>ph_number = 3, ph_name = ''Problem-Solving Scenario'',
      ph_description = ''Real-world problem-solving and system design'',
      max_questions = 4\<rparr>,
     \<lparr>ph_number = 4, ph_name = ''Behavioral & Wrap-up'',
      ph_description = ''Soft skills, behavioral questions, and conclusion'',
      max_questions = 3\<rparr>]"

text \<open>
  The mutable attributes of an \<open>InterviewAgent\<close>. \<open>started_at\<close> (wall-clock time) and
  \<open>phase_scores\<close> (an empty dict that is never read or written again) are left out;
  \<open>session_id\<close>, a fresh UUID in the source, is a parameter of construction.
\<close>

record agent =
  candidate_profile :: candidate_profile
  job_description :: string
  session_id :: string
  current_phase :: int
  questions_asked_in_phase :: int
  total_questions :: int
  conversation_history :: "interview_message list"
  status :: status
  system_prompt :: string

definition get_all_skills :: "candidate_profile \<Rightarrow> string list" where
  "get_all_skills p =
     languages (skills p) @ frameworks (skills p) @ tools (skills p)
       @ databases (skills p) @ cloud_platforms (skills p)"

definition experience_text :: "int option \<Rightarrow> string" where
  "experience_text y =
     (case y of None \<Rightarrow> ''Not specified''
      | Some n \<Rightarrow> if n = 0 then ''Not specified'' else str_int n)"

definition system_prompt_text :: "candidate_profile \<Rightarrow> string \<Rightarrow> int \<Rightarrow> string" where
  "system_prompt_text p jd ph =
     ''You are A.I. Harrison, a professional and friendly senior software engineering interviewer conducting a technical interview.\<newline>''
   @ ''\<newline>''
   @ ''Your role:\<newline>''
   @ ''- Conduct a thorough but respectful technical interview\<newline>''
   @ ''- Ask probing questions based on the candidate's resume\<newline>''
   @ ''- Adapt your questions based on their answers\<newline>''
   @ ''- Maintain a professional yet conversational tone\<newline>''
   @ ''- Provide constructive feedback when appropriate\<newline>''
   @ ''\<newline>''
   @ ''Candidate Information:\<newline>''
   @ ''Name: '' @ name p @ ''\<newline>''
   @ ''Experience: '' @ experience_text (years_of_experience p) @ '' years\<newline>''
   @ ''Skills: '' @ join '', '' (get_all_skills p) @ ''\<newline>''
   @ ''\<newline>''
   @ ''Job Description:\<newline>''
   @ take 1000 jd @ ''\<newline>''
   @ ''\<newline>''
   @ ''Interview Structure:\<newline>''
   @ ''- Phase 1: Warm-up & Background (get to know the candidate)\<newline>''
   @ ''- Phase 2: Technical Depth (deep dive into resume skills)\<newline>''
   @ ''- Phase 3: Problem-Solving (scenarios and system design)\<newline>''
   @ ''- Phase 4: Behavioral & Wrap-up (soft skills and conclusion)\<newline>''
   @ ''\<newline>''
   @ ''Guidelines:\<newline>''
   @ ''- Keep questions relevant to the job and candidate's background\<newline>''
   @ ''- Ask follow-up questions based on their answers\<newline>''
   @ ''- Encourage detailed explanations\<newline>''
   @ ''- Be supportive and professional\<newline>''
   @ ''- Wrap up gracefully when concluding the interview\<newline>''
   @ ''\<newline>''
   @ ''Important: You are currently in Phase '' @ str_int ph
   @ '' of the interview. Stay focused on the current phase's objectives.\<newline>''"

definition build_system_prompt :: "agent \<Rightarrow> agent" where
  "build_system_prompt a =
     a\<lparr>system_prompt :=
         system_prompt_text (candidate_profile a) (job_description a) (current_phase a)\<rparr>"

text \<open>\<open>InterviewAgent.__init__\<close>.\<close>

definition init_agent :: "string \<Rightarrow> candidate_profile \<Rightarrow> string \<Rightarrow> agent" where
  "init_agent sid p jd =
     build_system_prompt
       \<lparr>candidate_profile = p, job_description = jd, session_id = sid,
        current_phase = 1, questions_asked_in_phase = 0, total_questions = 0,
        conversation_history = [], status = Active, system_prompt = []\<rparr>"

definition opening_text :: "candidate_profile \<Rightarrow> string" where
  "opening_text p =
     ''Hello '' @ name p
   @ ''! I'm A.I. Harrison, and I'll be conducting your technical interview today.\<newline>''
   @ ''\<newline>''
   @ ''I've reviewed your resume and I'm excited to learn more about your experience with ''
   @ join '', '' (take 5 (get_all_skills p)) @ ''.\<newline>''
   @ ''\<newline>''
   @ ''Let's start with a warm-up question: Tell me a bit about yourself and your background in software engineering. What drew you to this field?''"

definition opening_messages :: "agent \<Rightarrow> chat_message list" where
  "opening_messages a =
     [(''system'', system_prompt a), (''assistant'', opening_text (candidate_profile a))]"

text \<open>
  \<open>generate_opening\<close>. \<open>InterviewMessage(role="assistant", content=opening)\<close> validates
  \<open>content: str\<close>, so a \<open>None\<close> content raises pydantic's \<open>ValidationError\<close> before the
  append.
\<close>

definition generate_opening :: "port \<Rightarrow> agent \<Rightarrow> (exn + string) \<times> agent" where
  "generate_opening port a =
     (case port (opening_messages a) of
        Inl e \<Rightarrow> (Inl e, a)
      | Inr None \<Rightarrow> (Inl ValidationError, a)
      | Inr (Some opening) \<Rightarrow>
          (Inr opening,
           a\<lparr>conversation_history :=
               conversation_history a @ [\<lparr>role = Assistant, content = opening\<rparr>]\<rparr>))"

definition should_advance_phase :: "agent \<Rightarrow> exn + bool" where
  "should_advance_phase a =
     (case py_index PHASES (current_phase a - 1) of
        Inl e \<Rightarrow> Inl e
      | Inr current_phase_def \<Rightarrow>
          Inr (questions_asked_in_phase a \<ge> max_questions current_phase_def))"

definition closing_text :: string where
  "closing_text =
     ''Thank you for taking the time to interview with us today! You've provided great insights into your technical background and problem-solving approach.\<newline>''
   @ ''\<newline>''
   @ ''The interview process is now complete. We'll review your responses and be in touch soon. Do you have any questions for me about the position or the team?''"

definition generate_closing :: "agent \<Rightarrow> string \<times> agent" where
  "generate_closing a =
     (closing_text,
      a\<lparr>conversation_history :=
          conversation_history a @ [\<lparr>role = Assistant, content = closing_text\<rparr>]\<rparr>)"

text \<open>The dict \<open>{"role": msg.role, "content": msg.content}\<close> of a transcript entry.\<close>

definition as_chat :: "interview_message \<Rightarrow> chat_message" where
  "as_chat msg = (role_str (role msg), content msg)"

text \<open>The \<open>messages\<close> list built by \<open>_generate_next_message\<close>.\<close>

definition generation_request :: "agent \<Rightarrow> chat_message list" where
  "generation_request a =
     (''system'', system_prompt a) # map as_chat (last_n 10 (conversation_history a))"

definition generate_next_message :: "port \<Rightarrow> agent \<Rightarrow> exn + string option" where
  "generate_next_message port a = port (generation_request a)"

text \<open>Python truthiness of an \<open>Optional[str]\<close>: neither \<open>None\<close> nor the empty string.\<close>

definition truthy :: "string option \<Rightarrow> bool" where
  "truthy m = (case m of None \<Rightarrow> False | Some t \<Rightarrow> t \<noteq> [])"

text \<open>
  Lines 203--213 of \<open>process_candidate_response\<close>: generate, and count and record the
  message when it is truthy. An exception of the port leaves the agent as it is at
  that point and is re-raised by the \<open>except\<close> clause.
\<close>

definition generate_and_record :: "port \<Rightarrow> agent \<Rightarrow> (exn + string option) \<times> agent" where
  "generate_and_record port a =
     (case generate_next_message port a of
        Inl e \<Rightarrow> (Inl e, a)
      | Inr None \<Rightarrow> (Inr None, a)
      | Inr (Some next_message) \<Rightarrow>
          if truthy (Some next_message) then
            (Inr (Some next_message),
             a\<lparr>questions_asked_in_phase := questions_asked_in_phase a + 1,
               total_questions := total_questions a + 1,
               conversation_history :=
                 conversation_history a @ [\<lparr>role = Assistant, content = next_message\<rparr>]\<rparr>)
          else (Inr (Some next_message), a))"

text \<open>Lines 194--196: the phase increment, the counter reset and the prompt rebuild.\<close>

definition advance_phase :: "agent \<Rightarrow> agent" where
  "advance_phase a =
     build_system_prompt
       (a\<lparr>current_phase := current_phase a + 1, questions_asked_in_phase := 0\<rparr>)"

definition append_user :: "string \<Rightarrow> agent \<Rightarrow> agent" where
  "append_user candidate_message a =
     a\<lparr>conversation_history :=
         conversation_history a @ [\<lparr>role = User, content = candidate_message\<rparr>]\<rparr>"

definition process_candidate_response ::
    "port \<Rightarrow> string \<Rightarrow> agent \<Rightarrow> (exn + string option) \<times> agent" where
  "process_candidate_response port candidate_message a0 =
     (let a = append_user candidate_message a0 in
      case should_advance_phase a of
        Inl e \<Rightarrow> (Inl e, a)
      | Inr adv \<Rightarrow>
          if adv then
            if current_phase a < 4 then generate_and_record port (advance_phase a)
            else (case generate_closing (a\<lparr>status := Completed\<rparr>) of
                    (closing, a') \<Rightarrow> (Inr (Some closing), a'))
          else generate_and_record port a)"

text \<open>
  \<open>InterviewState\<close> as \<open>get_interview_state\<close> builds it. The constructor validates
  \<open>current_phase\<close> against \<open>Field(ge=1, le=4)\<close>.
\<close>

record interview_state =
  st_session_id :: string
  st_candidate_profile :: candidate_profile
  st_job_description :: string
  st_current_phase :: int
  st_total_questions :: int
  st_conversation_history :: "interview_message list"
  st_status :: status

definition get_interview_state :: "agent \<Rightarrow> exn + interview_state" where
  "get_interview_state a =
     (case py_index PHASES (current_phase a - 1) of
        Inl e \<Rightarrow> Inl e
      | Inr current_phase_def \<Rightarrow>
          if 1 \<le> current_phase a \<and> current_phase a \<le> 4 then
            Inr \<lparr>st_session_id = session_id a,
                 st_candidate_profile = candidate_profile a,
                 st_job_description = job_description a,
                 st_current_phase = current_phase a,
                 st_total_questions = total_questions a,
                 st_conversation_history = conversation_history a,
                 st_status = status a\<rparr>
          else Inl ValidationError)"

subsection \<open>Sessions as sequences of calls\<close>

text \<open>
  A caller issues one \<open>process_candidate_response\<close> after the other on the same agent;
  \<open>process_turns\<close> lists the agent as it is after each call. Every call has its own
  port, since the service may answer the same request differently each time.
\<close>

fun process_turns :: "(port \<times> string) list \<Rightarrow> agent \<Rightarrow> agent list" where
  "process_turns [] a = []"
| "process_turns ((port, candidate_message) # rest) a =
     (let a' = snd (process_candidate_response port candidate_message a)
      in a' # process_turns rest a')"

text \<open>
  The agents a session can be in: a constructed agent, and whatever
  \<open>generate_opening\<close> and \<open>process_candidate_response\<close> leave behind, also when they
  raise (the agent object survives the exception).
\<close>

inductive reachable :: "agent \<Rightarrow> bool" where
  reach_init: "reachable (init_agent sid p jd)"
| reach_opening: "reachable a \<Longrightarrow> reachable (snd (generate_opening port a))"
| reach_process:
    "reachable a \<Longrightarrow> reachable (snd (process_candidate_response port candidate_message a))"

section \<open>String operations of the assessment engine\<close>

text \<open>\<open>s.startswith(sub)\<close>.\<close>

definition starts_with :: "string \<Rightarrow> string \<Rightarrow> bool" where
  "starts_with s sub = (take (length sub) s = sub)"

text \<open>\<open>sub in s\<close> for strings.\<close>

fun contains :: "string \<Rightarrow> string \<Rightarrow> bool" where
  "contains sub [] = (sub = [])"
| "contains sub (c # cs) = (starts_with (c # cs) sub \<or> contains sub cs)"

text \<open>
  \<open>s.split(sep)\<close> for a non-empty separator: \<open>cur\<close> holds the characters of the current
  piece, scanned left to right, occurrences of \<open>sep\<close> not overlapping.
\<close>

function split_from :: "string \<Rightarrow> string \<Rightarrow> string \<Rightarrow> string list" where
  "split_from sep cur s =
     (if s = [] then [cur]
      else if sep \<noteq> [] \<and> starts_with s sep then cur # split_from sep [] (drop (length sep) s)
      else split_from sep (cur @ [hd s]) (tl s))"
  by pat_completeness auto
termination
  by (relation "measure (\<lambda>(sep, cur, s). length s)") auto

declare split_from.simps [simp del]

definition split :: "string \<Rightarrow> string \<Rightarrow> string list" where
  "split s sep = split_from sep [] s"

text \<open>\<open>str.isspace\<close> on the code points below 256.\<close>

definition is_space :: "char \<Rightarrow> bool" where
  "is_space c =
     (let n = (of_char c :: nat)
      in (9 \<le> n \<and> n \<le> 13) \<or> (28 \<le> n \<and> n \<le> 32) \<or> n = 133 \<or> n = 160)"

definition strip :: "string \<Rightarrow> string" where
  "strip s = rev (dropWhile is_space (rev (dropWhile is_space s)))"

text \<open>\<open>str.lower\<close> on the code points below 256: the ASCII and Latin-1 capitals.\<close>

definition lower_char :: "char \<Rightarrow> char" where
  "lower_char c =
     (let n = (of_char c :: nat)
      in if (65 \<le> n \<and> n \<le> 90) \<or> (192 \<le> n \<and> n \<le> 222 \<and> n \<noteq> 215)
         then char_of (n + 32) else c)"

definition lower :: "string \<Rightarrow> string" where
  "lower s = map lower_char s"

text \<open>\<open>str.upper\<close>, applied by the source to role names only: ASCII letters.\<close>

definition upper_char :: "char \<Rightarrow> char" where
  "upper_char c =
     (let n = (of_char c :: nat)
      in if 97 \<le> n \<and> n \<le> 122 then char_of (n - 32) else c)"

definition upper :: "string \<Rightarrow> string" where
  "upper s = map upper_char s"

section \<open>Floats, JSON values and library functions\<close>

text \<open>
  A Python float is a finite value, an infinity or NaN. Comparisons of floats are
  exact and are modelled on the value; arithmetic rounds, and is a parameter
  (\<open>float_add\<close>, \<open>float_div\<close> below).
\<close>

datatype pyfloat = Finite rat | PosInf | NegInf | NaN

text \<open>The constraint \<open>Field(ge=0, le=10)\<close> on a float.\<close>

definition ge0_le10 :: "pyfloat \<Rightarrow> bool" where
  "ge0_le10 v = (case v of Finite q \<Rightarrow> 0 \<le> q \<and> q \<le> 10 | _ \<Rightarrow> False)"

datatype json =
    JNull
  | JBool bool
  | JInt int
  | JFloat pyfloat
  | JStr string
  | JArr "json list"
  | JObj "(string \<times> json) list"

text \<open>
  Functions of Python and of its libraries that the engine calls and that are not
  code of this repository; the engine is modelled for any such functions.
  \<^item> \<open>json_loads\<close>: \<open>json.loads\<close>, \<open>None\<close> for \<open>JSONDecodeError\<close>;
  \<^item> \<open>float_add\<close>, \<open>float_div\<close>: \<open>+\<close> and \<open>/\<close> on floats;
  \<^item> \<open>float_of_int\<close>, \<open>float_of_str\<close>: \<open>float(x)\<close> on an int (\<open>None\<close> for
    \<open>OverflowError\<close>) and on a string (\<open>None\<close> for \<open>ValueError\<close>);
  \<^item> \<open>as_float\<close>, \<open>as_int\<close>, \<open>as_str\<close>, \<open>as_str_list\<close>: pydantic's coercion of a
    value to a field of type \<open>float\<close>, \<open>int\<close>, \<open>str\<close>, \<open>List[str]\<close>, \<open>None\<close> where
    pydantic rejects the value.
\<close>

record pylib =
  json_loads :: "string \<Rightarrow> json option"
  float_add :: "pyfloat \<Rightarrow> pyfloat \<Rightarrow> pyfloat"
  float_div :: "pyfloat \<Rightarrow> pyfloat \<Rightarrow> pyfloat"
  float_of_int :: "int \<Rightarrow> pyfloat option"
  float_of_str :: "string \<Rightarrow> pyfloat option"
  as_float :: "json \<Rightarrow> pyfloat option"
  as_int :: "json \<Rightarrow> int option"
  as_str :: "json \<Rightarrow> string option"
  as_str_list :: "json \<Rightarrow> string list option"

text \<open>The builtin \<open>float(x)\<close> on a parsed JSON value.\<close>

definition py_float :: "pylib \<Rightarrow> json \<Rightarrow> exn + pyfloat" where
  "py_float lib v =
     (case v of
        JFloat f \<Rightarrow> Inr f
      | JInt n \<Rightarrow> (case float_of_int lib n of None \<Rightarrow> Inl OverflowError | Some f \<Rightarrow> Inr f)
      | JBool b \<Rightarrow> Inr (Finite (if b then 1 else 0))
      | JStr s \<Rightarrow> (case float_of_str lib s of None \<Rightarrow> Inl ValueError | Some f \<Rightarrow> Inr f)
      | _ \<Rightarrow> Inl TypeError)"

text \<open>\<open>v[key]\<close> with a string key: a dict looks the key up, every other value raises.\<close>

definition subscript :: "json \<Rightarrow> string \<Rightarrow> exn + json" where
  "subscript v key =
     (case v of
        JObj kvs \<Rightarrow> (case map_of kvs key of None \<Rightarrow> Inl KeyError | Some x \<Rightarrow> Inr x)
      | _ \<Rightarrow> Inl TypeError)"

text \<open>
  The elements a \<open>for\<close> loop sees: the items of a list, the keys of a dict, the
  characters of a string; other values are not iterable.
\<close>

definition py_iter :: "json \<Rightarrow> exn + json list" where
  "py_iter v =
     (case v of
        JArr xs \<Rightarrow> Inr xs
      | JObj kvs \<Rightarrow> Inr (map (\<lambda>kv. JStr (fst kv)) kvs)
      | JStr s \<Rightarrow> Inr (map (\<lambda>c. JStr [c]) s)
      | _ \<Rightarrow> Inl TypeError)"

text \<open>Sequencing of steps that may raise.\<close>

definition exn_bind :: "exn + 'a \<Rightarrow> ('a \<Rightarrow> exn + 'b) \<Rightarrow> exn + 'b" where
  "exn_bind m f = (case m of Inl e \<Rightarrow> Inl e | Inr x \<Rightarrow> f x)"

definition coerce :: "('a \<Rightarrow> 'b option) \<Rightarrow> 'a \<Rightarrow> exn + 'b" where
  "coerce f v = (case f v of None \<Rightarrow> Inl ValidationError | Some x \<Rightarrow> Inr x)"

section \<open>The report schema\<close>

record phase_score =
  phase_number :: int
  phase_name :: string
  technical_accuracy :: pyfloat
  problem_solving :: pyfloat
  communication :: pyfloat
  depth_of_knowledge :: pyfloat
  average_score :: pyfloat

record candidate_strengths =
  top_strengths :: "string list"
  demonstrated_skills :: "string list"
  notable_achievements :: "string list"

record candidate_weaknesses =
  areas_for_improvement :: "string list"
  missing_skills :: "string list"
  concerns :: "string list"

text \<open>\<open>InterviewReport\<close>; \<open>generated_at\<close> (wall-clock time) is left out.\<close>

record interview_report =
  rep_session_id :: string
  candidate_name :: string
  job_title :: string
  overall_score :: pyfloat
  recommendation :: string
  phase_scores :: "phase_score list"
  strengths :: candidate_strengths
  weaknesses :: candidate_weaknesses
  summary :: string
  key_highlights :: "string list"
  raw_analysis :: "json option"

text \<open>
  The constructors validate the constraints of the schema on values that already
  have the field's type, and raise \<open>ValidationError\<close> otherwise.
\<close>

definition PhaseScore ::
    "int \<Rightarrow> string \<Rightarrow> pyfloat \<Rightarrow> pyfloat \<Rightarrow> pyfloat \<Rightarrow> pyfloat \<Rightarrow> pyfloat \<Rightarrow> exn + phase_score" where
  "PhaseScore n nm ta ps c d avg =
     (if 1 \<le> n \<and> n \<le> 4 \<and> ge0_le10 ta \<and> ge0_le10 ps \<and> ge0_le10 c \<and> ge0_le10 d
      then Inr \<lparr>phase_number = n, phase_name = nm, technical_accuracy = ta,
                problem_solving = ps, communication = c, depth_of_knowledge = d,
                average_score = avg\<rparr>
      else Inl ValidationError)"

definition recommendations :: "string list" where
  "recommendations = [''strong_yes'', ''yes'', ''maybe'', ''no'', ''strong_no'']"

definition InterviewReport ::
    "string \<Rightarrow> string \<Rightarrow> string \<Rightarrow> pyfloat \<Rightarrow> string \<Rightarrow> phase_score list \<Rightarrow> candidate_strengths
       \<Rightarrow> candidate_weaknesses \<Rightarrow> string \<Rightarrow> string list \<Rightarrow> json option \<Rightarrow> exn + interview_report" where
  "InterviewReport sid cname title score rec pss str weak summ highlights raw =
     (if ge0_le10 score \<and> rec \<in> set recommendations
      then Inr \<lparr>rep_session_id = sid, candidate_name = cname, job_title = title,
                overall_score = score, recommendation = rec, phase_scores = pss,
                strengths = str, weaknesses = weak, summary = summ,
                key_highlights = highlights, raw_analysis = raw\<rparr>
      else Inl ValidationError)"

text \<open>A keyword argument of type \<open>List[str]\<close> taken from an unpacked dict.\<close>

definition required_field :: "pylib \<Rightarrow> (string \<times> json) list \<Rightarrow> string \<Rightarrow> exn + string list" where
  "required_field lib kvs key =
     (case map_of kvs key of None \<Rightarrow> Inl ValidationError | Some v \<Rightarrow> coerce (as_str_list lib) v)"

definition defaulted_field :: "pylib \<Rightarrow> (string \<times> json) list \<Rightarrow> string \<Rightarrow> exn + string list" where
  "defaulted_field lib kvs key =
     (case map_of kvs key of None \<Rightarrow> Inr [] | Some v \<Rightarrow> coerce (as_str_list lib) v)"

text \<open>
  \<open>CandidateStrengths(**v)\<close> and \<open>CandidateWeaknesses(**v)\<close>: unpacking needs a dict;
  keys that are no fields are ignored.
\<close>

definition CandidateStrengths_kw :: "pylib \<Rightarrow> json \<Rightarrow> exn + candidate_strengths" where
  "CandidateStrengths_kw lib v =
     (case v of
        JObj kvs \<Rightarrow>
          exn_bind (required_field lib kvs ''top_strengths'') (\<lambda>ts.
          exn_bind (required_field lib kvs ''demonstrated_skills'') (\<lambda>ds.
          exn_bind (defaulted_field lib kvs ''notable_achievements'') (\<lambda>na.
            Inr \<lparr>top_strengths = ts, demonstrated_skills = ds, notable_achievements = na\<rparr>)))
      | _ \<Rightarrow> Inl TypeError)"

definition CandidateWeaknesses_kw :: "pylib \<Rightarrow> json \<Rightarrow> exn + candidate_weaknesses" where
  "CandidateWeaknesses_kw lib v =
     (case v of
        JObj kvs \<Rightarrow>
          exn_bind (required_field lib kvs ''areas_for_improvement'') (\<lambda>ai.
          exn_bind (defaulted_field lib kvs ''missing_skills'') (\<lambda>ms.
          exn_bind (defaulted_field lib kvs ''concerns'') (\<lambda>cs.
            Inr \<lparr>areas_for_improvement = ai, missing_skills = ms, concerns = cs\<rparr>)))
      | _ \<Rightarrow> Inl TypeError)"

section \<open>services/assessment_engine.py\<close>

definition transcript_line :: "interview_message \<Rightarrow> string" where
  "transcript_line msg = upper (role_str (role msg)) @ '': '' @ content msg"

definition phase_breakdown_line :: "nat \<times> interview_phase \<Rightarrow> string" where
  "phase_breakdown_line ip =
     ''- Phase '' @ str_int (int (fst ip) + 1) @ '': '' @ ph_name (snd ip)
       @ '' - '' @ ph_description (snd ip)"

definition build_assessment_prompt :: "interview_state \<Rightarrow> string" where
  "build_assessment_prompt st =
     (let recent_messages = last_n 20 (st_conversation_history st);
          transcript = join ''\<newline>'' (map transcript_line recent_messages);
          phase_breakdown = join ''\<newline>'' (map phase_breakdown_line (enumerate 0 PHASES))
      in
     ''You are an expert hiring manager analyzing a technical interview transcript.\<newline>''
   @ ''\<newline>''
   @ ''Analyze the candidate's responses throughout the interview and provide a comprehensive assessment.\<newline>''
   @ ''\<newline>''
   @ ''Interview Context:\<newline>''
   @ ''- Job Description: '' @ take 500 (st_job_description st) @ ''\<newline>''
   @ ''- Candidate: '' @ name (st_candidate_profile st) @ ''\<newline>''
   @ ''- Phase Breakdown:\<newline>''
   @ phase_breakdown @ ''\<newline>''
   @ ''\<newline>''
   @ ''Interview Transcript (last '' @ str_int (int (length recent_messages)) @ '' messages):\<newline>''
   @ take 3000 transcript @ ''\<newline>''
   @ ''\<newline>''
   @ ''Provide your assessment as JSON with this structure:\<newline>''
   @ ''{\<newline>''
   @ ''    \"overall_score\": <float 0-10>,\<newline>''
   @ ''    \"recommendation\": \"strong_yes\" | \"yes\" | \"maybe\" | \"no\" | \"strong_no\",\<newline>''
   @ ''    \"phase_scores\": [\<newline>''
   @ ''        {\<newline>''
   @ ''            \"phase_number\": 1,\<newline>''
   @ ''            \"phase_name\": \"Warm-up & Background\",\<newline>''
   @ ''            \"technical_accuracy\": <float 0-10>,\<newline>''
   @ ''            \"problem_solving\": <float 0-10>,\<newline>''
   @ ''            \"communication\": <float 0-10>,\<newline>''
   @ ''            \"depth_of_knowledge\": <float 0-10>\<newline>''
   @ ''        },\<newline>''
   @ ''        {... for each phase}\<newline>''
   @ ''    ],\<newline>''
   @ ''    \"strengths\": {\<newline>''
   @ ''        \"top_strengths\": [\"strength1\", \"strength2\", ...],\<newline>''
   @ ''        \"demonstrated_skills\": [\"skill1\", \"skill2\", ...],\<newline>''
   @ ''        \"notable_achievements\": [\"achievement1\", ...]\<newline>''
   @ ''    },\<newline>''
   @ ''    \"weaknesses\": {\<newline>''
   @ ''        \"areas_for_improvement\": [\"area1\", \"area2\", ...],\<newline>''
   @ ''        \"missing_skills\": [\"skill1\", ...],\<newline>''
   @ ''        \"concerns\": [\"concern1\", ...]\<newline>''
   @ ''    },\<newline>''
   @ ''    \"summary\": \"Overall assessment summary paragraph\",\<newline>''
   @ ''    \"key_highlights\": [\"highlight1\", \"highlight2\", ...]\<newline>''
   @ ''}\<newline>''
   @ ''\<newline>''
   @ ''Focus on:\<newline>''
   @ ''- Technical accuracy and depth of knowledge\<newline>''
   @ ''- Problem-solving approach and reasoning\<newline>''
   @ ''- Communication clarity and articulation\<newline>''
   @ ''- Alignment with job requirements\<newline>''
   @ ''- Demonstrated skills vs. listed skills'')"

definition assessment_messages :: "interview_state \<Rightarrow> chat_message list" where
  "assessment_messages st =
     [(''system'', ''You are an expert technical interviewer and hiring manager.''),
      (''user'', build_assessment_prompt st)]"

text \<open>
  \<open>_parse_assessment_response\<close>, from the extracted response text on. Only
  \<open>JSONDecodeError\<close> is caught and turned into \<open>ValueError\<close>; a \<open>None\<close> text makes
  the \<open>in\<close> test raise \<open>TypeError\<close>.
\<close>

definition fence_json :: string where
  "fence_json = ''```json''"

definition fence :: string where
  "fence = ''```''"

definition unfence :: "string \<Rightarrow> string \<Rightarrow> exn + string" where
  "unfence response_text mark =
     exn_bind (py_index (split response_text mark) 1) (\<lambda>after.
     exn_bind (py_index (split after fence) 0) (\<lambda>inner. Inr (strip inner)))"

definition parse_assessment_response :: "pylib \<Rightarrow> string option \<Rightarrow> exn + json" where
  "parse_assessment_response lib response =
     (case response of
        None \<Rightarrow> Inl TypeError
      | Some response_text \<Rightarrow>
          exn_bind
            (if contains fence_json response_text then unfence response_text fence_json
             else if contains fence response_text then unfence response_text fence
             else Inr response_text)
            (\<lambda>text. case json_loads lib text of
                       None \<Rightarrow> Inl ValueError
                     | Some assessment_data \<Rightarrow> Inr assessment_data))"

text \<open>One iteration of the loop of \<open>_parse_phase_scores\<close>.\<close>

definition parse_phase_score :: "pylib \<Rightarrow> json \<Rightarrow> exn + phase_score" where
  "parse_phase_score lib phase =
     exn_bind (subscript phase ''phase_number'') (\<lambda>pn.
     exn_bind (subscript phase ''phase_name'') (\<lambda>pname.
     exn_bind (exn_bind (subscript phase ''technical_accuracy'') (py_float lib)) (\<lambda>ta.
     exn_bind (exn_bind (subscript phase ''problem_solving'') (py_float lib)) (\<lambda>ps.
     exn_bind (exn_bind (subscript phase ''communication'') (py_float lib)) (\<lambda>c.
     exn_bind (exn_bind (subscript phase ''depth_of_knowledge'') (py_float lib)) (\<lambda>d.
     exn_bind (coerce (as_int lib) pn) (\<lambda>n.
     exn_bind (coerce (as_str lib) pname) (\<lambda>nm.
       PhaseScore n nm ta ps c d
         (float_div lib (float_add lib (float_add lib (float_add lib ta ps) c) d)
            (Finite 4))))))))))"

fun parse_phase_list :: "pylib \<Rightarrow> json list \<Rightarrow> exn + phase_score list" where
  "parse_phase_list lib [] = Inr []"
| "parse_phase_list lib (phase # rest) =
     exn_bind (parse_phase_score lib phase) (\<lambda>score.
     exn_bind (parse_phase_list lib rest) (\<lambda>scores. Inr (score # scores)))"

definition parse_phase_scores :: "pylib \<Rightarrow> json \<Rightarrow> exn + phase_score list" where
  "parse_phase_scores lib phase_data = exn_bind (py_iter phase_data) (parse_phase_list lib)"

definition default_title :: string where
  "default_title = ''Software Engineer''"

definition title_keywords :: "string list" where
  "title_keywords = [''engineer'', ''developer'', ''software'', ''architect'', ''scientist'']"

definition extract_job_title :: "string \<Rightarrow> string" where
  "extract_job_title jd =
     (case split jd ''\<newline>'' of
        [] \<Rightarrow> default_title
      | l # _ \<Rightarrow>
          (let first_line = strip l
           in if length first_line < 100
                 \<and> list_ex (\<lambda>keyword. contains keyword (lower first_line)) title_keywords
              then first_line else default_title))"

text \<open>The list comprehension of \<open>_generate_fallback_report\<close>, element by element.\<close>

fun collect :: "(exn + 'a) list \<Rightarrow> exn + 'a list" where
  "collect [] = Inr []"
| "collect (m # ms) = exn_bind m (\<lambda>x. exn_bind (collect ms) (\<lambda>xs. Inr (x # xs)))"

definition fallback_phase_score :: "nat \<times> interview_phase \<Rightarrow> exn + phase_score" where
  "fallback_phase_score ip =
     PhaseScore (int (fst ip) + 1) (ph_name (snd ip))
       (Finite 5) (Finite 5) (Finite 5) (Finite 5) (Finite 5)"

definition generate_fallback_report :: "interview_state \<Rightarrow> exn + interview_report" where
  "generate_fallback_report st =
     exn_bind (collect (map fallback_phase_score (enumerate 0 PHASES))) (\<lambda>pss.
       InterviewReport (st_session_id st) (name (st_candidate_profile st))
         (extract_job_title (st_job_description st))
         (Finite 5) ''maybe'' pss
         \<lparr>top_strengths = [''Completed interview successfully''],
          demonstrated_skills = [], notable_achievements = []\<rparr>
         \<lparr>areas_for_improvement = [''Assessment incomplete''],
          missing_skills = [], concerns = [''AI assessment generation failed'']\<rparr>
         ''Assessment report generation encountered an error. Manual review recommended.''
         [''Interview session completed'']
         None)"

text \<open>\<open>d.get(key, default)\<close>.\<close>

definition dict_get :: "json \<Rightarrow> string \<Rightarrow> json \<Rightarrow> exn + json" where
  "dict_get v key dflt =
     (case v of
        JObj kvs \<Rightarrow> (case map_of kvs key of None \<Rightarrow> Inr dflt | Some x \<Rightarrow> Inr x)
      | _ \<Rightarrow> Inl AttributeError)"

text \<open>
  The field \<open>recommendation\<close> is a \<open>Literal\<close>: only a string is accepted; the field
  \<open>raw_analysis\<close> is an \<open>Optional[Dict[str, Any]]\<close>: only a dict (or \<open>None\<close>) is.
\<close>

definition as_literal :: "json \<Rightarrow> string option" where
  "as_literal v = (case v of JStr s \<Rightarrow> Some s | _ \<Rightarrow> None)"

definition as_dict :: "json \<Rightarrow> json option" where
  "as_dict v = (case v of JObj kvs \<Rightarrow> Some (JObj kvs) | _ \<Rightarrow> None)"

text \<open>The body of the \<open>try\<close> block of \<open>generate_report\<close>.\<close>

definition generate_report_try :: "pylib \<Rightarrow> port \<Rightarrow> interview_state \<Rightarrow> exn + interview_report" where
  "generate_report_try lib port st =
     exn_bind (port (assessment_messages st)) (\<lambda>response.
     exn_bind (parse_assessment_response lib response) (\<lambda>assessment_data.
     exn_bind (subscript assessment_data ''overall_score'') (\<lambda>score.
     exn_bind (subscript assessment_data ''recommendation'') (\<lambda>rec.
     exn_bind (exn_bind (dict_get assessment_data ''phase_scores'' (JArr []))
                 (parse_phase_scores lib)) (\<lambda>pss.
     exn_bind (exn_bind (subscript assessment_data ''strengths'')
                 (CandidateStrengths_kw lib)) (\<lambda>str.
     exn_bind (exn_bind (subscript assessment_data ''weaknesses'')
                 (CandidateWeaknesses_kw lib)) (\<lambda>weak.
     exn_bind (subscript assessment_data ''summary'') (\<lambda>summ.
     exn_bind (subscript assessment_data ''key_highlights'') (\<lambda>highlights.
     exn_bind (coerce (as_float lib) score) (\<lambda>score'.
     exn_bind (coerce as_literal rec) (\<lambda>rec'.
     exn_bind (coerce (as_str lib) summ) (\<lambda>summ'.
     exn_bind (coerce (as_str_list lib) highlights) (\<lambda>highlights'.
     exn_bind (coerce as_dict assessment_data) (\<lambda>raw.
       InterviewReport (st_session_id st) (name (st_candidate_profile st))
         (extract_job_title (st_job_description st))
         score' rec' pss str weak summ' highlights' (Some raw)))))))))))))))"

text \<open>
  \<open>generate_report\<close>: whatever the \<open>try\<close> block raises is caught and answered by the
  fallback report. The argument \<open>candidate_skills\<close> is not used by the source.
\<close>

definition generate_report ::
    "pylib \<Rightarrow> port \<Rightarrow> interview_state \<Rightarrow> string list \<Rightarrow> exn + interview_report" where
  "generate_report lib port st candidate_skills =
     (case generate_report_try lib port st of
        Inr report \<Rightarrow> Inr report
      | Inl e \<Rightarrow> generate_fallback_report st)"

text \<open>The constraints the schema puts on a report.\<close>

definition valid_phase_score :: "phase_score \<Rightarrow> bool" where
  "valid_phase_score ps =
     (1 \<le> phase_number ps \<and> phase_number ps \<le> 4
      \<and> ge0_le10 (technical_accuracy ps) \<and> ge0_le10 (problem_solving ps)
      \<and> ge0_le10 (communication ps) \<and> ge0_le10 (depth_of_knowledge ps))"

definition valid_report :: "interview_report \<Rightarrow> bool" where
  "valid_report r =
     (ge0_le10 (overall_score r) \<and> recommendation r \<in> set recommendations
      \<and> list_all valid_phase_score (phase_scores r))"

section \<open>Notions used in the statements\<close>

text \<open>The quota of a phase: \<open>PHASES[phase - 1].max_questions\<close>.\<close>

definition phase_quota :: "int \<Rightarrow> int" where
  "phase_quota ph = max_questions (PHASES ! nat (ph - 1))"

text \<open>A port that answers every request with a non-empty message.\<close>

definition answers :: "port \<Rightarrow> bool" where
  "answers port = (\<forall>req. \<exists>m. port req = Inr (Some m) \<and> m \<noteq> [])"

text \<open>
  The agent as it is when a call of \<open>process_candidate_response\<close> reaches line 204,
  the generation of the next message: the candidate's message is appended and, when
  the quota of the phase was reached, the phase is advanced.
\<close>

definition generation_state :: "string \<Rightarrow> agent \<Rightarrow> agent" where
  "generation_state m a =
     (if phase_quota (current_phase a) \<le> questions_asked_in_phase a
      then advance_phase (append_user m a) else append_user m a)"

text \<open>What a call adds to the counters for the outcome of its generation.\<close>

definition counted :: "exn + string option \<Rightarrow> int" where
  "counted r = (case r of Inl e \<Rightarrow> 0 | Inr x \<Rightarrow> if truthy x then 1 else 0)"

text \<open>
  The counters of an agent, and how a call of \<open>process_candidate_response\<close> whose
  port answers moves them.
\<close>

type_synonym counters = "int \<times> int \<times> int \<times> status"

definition counters :: "agent \<Rightarrow> counters" where
  "counters a =
     (current_phase a, questions_asked_in_phase a, total_questions a, status a)"

fun next_counters :: "counters \<Rightarrow> counters" where
  "next_counters (ph, q, t, st) =
     (if phase_quota ph \<le> q then
        if ph < 4 then (ph + 1, 1, t + 1, st) else (ph, q, t, Completed)
      else (ph, q + 1, t + 1, st))"

fun trajectory :: "nat \<Rightarrow> counters \<Rightarrow> counters list" where
  "trajectory 0 c = []"
| "trajectory (Suc n) c = next_counters c # trajectory n (next_counters c)"

subsection \<open>The scenario of the specification\<close>

text \<open>
  Candidate Jane Doe with two listed skills, a job description starting with
  \<open>Backend Engineer\<close>, and a port that answers every request with a question.
\<close>

definition jane_doe :: candidate_profile where
  "jane_doe =
     \<lparr>name = ''Jane Doe'',
      skills = \<lparr>languages = [''Python''], frameworks = [''FastAPI''], tools = [],
                databases = [], cloud_platforms = []\<rparr>,
      years_of_experience = Some 5\<rparr>"

definition backend_jd :: string where
  "backend_jd = ''Backend Engineer\<newline>We build payment services.''"

definition jane_agent :: agent where
  "jane_agent = init_agent ''session-1'' jane_doe backend_jd"

definition question_port :: port where
  "question_port = (\<lambda>req. Inr (Some ''Tell me more.''))"

definition failing_port :: port where
  "failing_port = (\<lambda>req. Inl PortException)"

text \<open>\<open>n\<close> answered turns of the scenario, and the agent after them.\<close>

definition scenario_turns :: "nat \<Rightarrow> (port \<times> string) list" where
  "scenario_turns n = replicate n (question_port, ''My answer.'')"

definition jane_after :: "nat \<Rightarrow> agent" where
  "jane_after n = last (jane_agent # process_turns (scenario_turns n) jane_agent)"

subsection \<open>A library instance and a model answer for the examples\<close>

text \<open>
  Arithmetic that is exact on finite values, coercions that accept the JSON values of
  the field's own type, and a parser that knows one text.
\<close>

definition exact_add :: "pyfloat \<Rightarrow> pyfloat \<Rightarrow> pyfloat" where
  "exact_add x y = (case x of Finite p \<Rightarrow> (case y of Finite q \<Rightarrow> Finite (p + q) | _ \<Rightarrow> NaN) | _ \<Rightarrow> NaN)"

definition exact_div :: "pyfloat \<Rightarrow> pyfloat \<Rightarrow> pyfloat" where
  "exact_div x y = (case x of Finite p \<Rightarrow> (case y of Finite q \<Rightarrow> Finite (p / q) | _ \<Rightarrow> NaN) | _ \<Rightarrow> NaN)"

fun strings_of :: "json list \<Rightarrow> string list option" where
  "strings_of [] = Some []"
| "strings_of (JStr s # vs) = (case strings_of vs of None \<Rightarrow> None | Some ss \<Rightarrow> Some (s # ss))"
| "strings_of (v # vs) = None"

definition sample_phase :: json where
  "sample_phase =
     JObj [(''phase_number'', JInt 1), (''phase_name'', JStr ''Warm-up & Background''),
           (''technical_accuracy'', JInt 8), (''problem_solving'', JInt 7),
           (''communication'', JInt 9), (''depth_of_knowledge'', JInt 6),
           (''average_score'', JInt 1)]"

definition sample_assessment :: json where
  "sample_assessment =
     JObj [(''overall_score'', JFloat (Finite (15 / 2))), (''recommendation'', JStr ''yes''),
           (''phase_scores'', JArr [sample_phase]),
           (''strengths'', JObj [(''top_strengths'', JArr [JStr ''Clear answers'']),
                                 (''demonstrated_skills'', JArr [JStr ''Python''])]),
           (''weaknesses'', JObj [(''areas_for_improvement'', JArr [JStr ''Testing''])]),
           (''summary'', JStr ''Solid candidate.''),
           (''key_highlights'', JArr [JStr ''Built a payment service'']),
           (''average_score'', JInt 1)]"

definition exact_lib :: pylib where
  "exact_lib =
     \<lparr>json_loads = (\<lambda>s. if s = ''{sample}'' then Some sample_assessment else None),
      float_add = exact_add,
      float_div = exact_div,
      float_of_int = (\<lambda>n. Some (Finite (of_int n))),
      float_of_str = (\<lambda>s. None),
      as_float = (\<lambda>v. case v of JFloat f \<Rightarrow> Some f | JInt n \<Rightarrow> Some (Finite (of_int n)) | _ \<Rightarrow> None),
      as_int = (\<lambda>v. case v of JInt n \<Rightarrow> Some n | _ \<Rightarrow> None),
      as_str = (\<lambda>v. case v of JStr s \<Rightarrow> Some s | _ \<Rightarrow> None),
      as_str_list = (\<lambda>v. case v of JArr vs \<Rightarrow> strings_of vs | _ \<Rightarrow> None)\<rparr>"


definition garbled_port :: port where
  "garbled_port = (\<lambda>req. Inr (Some ''I cannot assess this candidate.''))"

text \<open>The state of the scenario's agent after seventeen calls.\<close>

definition jane_state :: interview_state where
  "jane_state =
     \<lparr>st_session_id = session_id (jane_after 17),
      st_candidate_profile = candidate_profile (jane_after 17),
      st_job_description = job_description (jane_after 17),
      st_current_phase = current_phase (jane_after 17),
      st_total_questions = total_questions (jane_after 17),
      st_conversation_history = conversation_history (jane_after 17),
      st_status = status (jane_after 17)\<rparr>"

section \<open>The phase state machine: basic facts\<close>

lemma phase_quota_simps [simp]:
  "phase_quota 1 = 3" "phase_quota 2 = 6" "phase_quota 3 = 4" "phase_quota 4 = 3"
  by (simp_all add: phase_quota_def PHASES_def)

lemma phase_cases: "1 \<le> (ph::int) \<Longrightarrow> ph \<le> 4 \<Longrightarrow> ph = 1 \<or> ph = 2 \<or> ph = 3 \<or> ph = 4"
  by arith

lemma py_index_PHASES:
  "1 \<le> ph \<Longrightarrow> ph \<le> 4 \<Longrightarrow> py_index PHASES (ph - 1) = Inr (PHASES ! nat (ph - 1))"
  by (simp add: py_index_def PHASES_def)

lemma should_advance_in_range:
  "1 \<le> current_phase a \<Longrightarrow> current_phase a \<le> 4 \<Longrightarrow>
   should_advance_phase a = Inr (phase_quota (current_phase a) \<le> questions_asked_in_phase a)"
  by (simp add: should_advance_phase_def py_index_PHASES phase_quota_def)

lemma append_user_simps [simp]:
  "current_phase (append_user m a) = current_phase a"
  "questions_asked_in_phase (append_user m a) = questions_asked_in_phase a"
  "total_questions (append_user m a) = total_questions a"
  "status (append_user m a) = status a"
  "system_prompt (append_user m a) = system_prompt a"
  "candidate_profile (append_user m a) = candidate_profile a"
  "job_description (append_user m a) = job_description a"
  "session_id (append_user m a) = session_id a"
  "conversation_history (append_user m a) = conversation_history a @ [\<lparr>role = User, content = m\<rparr>]"
  by (simp_all add: append_user_def)

lemma advance_phase_simps [simp]:
  "current_phase (advance_phase a) = current_phase a + 1"
  "questions_asked_in_phase (advance_phase a) = 0"
  "total_questions (advance_phase a) = total_questions a"
  "status (advance_phase a) = status a"
  "system_prompt (advance_phase a) =
     system_prompt_text (candidate_profile a) (job_description a) (current_phase a + 1)"
  "candidate_profile (advance_phase a) = candidate_profile a"
  "job_description (advance_phase a) = job_description a"
  "session_id (advance_phase a) = session_id a"
  "conversation_history (advance_phase a) = conversation_history a"
  by (simp_all add: advance_phase_def build_system_prompt_def)

lemma process_unfold:
  "1 \<le> current_phase a \<Longrightarrow> current_phase a \<le> 4 \<Longrightarrow>
   process_candidate_response port m a =
     (if phase_quota (current_phase a) \<le> questions_asked_in_phase a then
        if current_phase a < 4 then generate_and_record port (advance_phase (append_user m a))
        else (Inr (Some closing_text),
              (append_user m a)\<lparr>status := Completed,
                 conversation_history := conversation_history a
                   @ [\<lparr>role = User, content = m\<rparr>, \<lparr>role = Assistant, content = closing_text\<rparr>]\<rparr>)
      else generate_and_record port (append_user m a))"
  by (simp add: process_candidate_response_def Let_def should_advance_in_range generate_closing_def)

lemma generate_and_record_answer:
  "port (generation_request a) = Inr (Some t) \<Longrightarrow> t \<noteq> [] \<Longrightarrow>
   generate_and_record port a =
     (Inr (Some t),
      a\<lparr>questions_asked_in_phase := questions_asked_in_phase a + 1,
        total_questions := total_questions a + 1,
        conversation_history := conversation_history a @ [\<lparr>role = Assistant, content = t\<rparr>]\<rparr>)"
  by (simp add: generate_and_record_def generate_next_message_def truthy_def)

lemma generate_and_record_fail:
  "port (generation_request a) = Inl e \<Longrightarrow> generate_and_record port a = (Inl e, a)"
  by (simp add: generate_and_record_def generate_next_message_def)

lemma generate_and_record_result:
  "fst (generate_and_record port a) = port (generation_request a)"
  by (simp add: generate_and_record_def generate_next_message_def split: sum.splits option.splits)

lemma counters_step:
  assumes "answers port" "1 \<le> current_phase a" "current_phase a \<le> 4"
  shows "counters (snd (process_candidate_response port m a)) = next_counters (counters a)"
proof -
  have g: "\<And>b. \<exists>t. t \<noteq> [] \<and> port (generation_request b) = Inr (Some t)"
    using assms(1) unfolding answers_def by metis
  obtain t1 where t1: "t1 \<noteq> []" "port (generation_request (append_user m a)) = Inr (Some t1)"
    using g by blast
  obtain t2 where t2: "t2 \<noteq> []"
      "port (generation_request (advance_phase (append_user m a))) = Inr (Some t2)"
    using g by blast
  show ?thesis
    using assms(2,3) t1 t2
    by (simp add: process_unfold counters_def generate_and_record_answer)
qed

lemma next_counters_range:
  "1 \<le> fst c \<Longrightarrow> fst c \<le> 4 \<Longrightarrow> 1 \<le> fst (next_counters c) \<and> fst (next_counters c) \<le> 4"
  by (cases c) auto

lemma counters_turns:
  "\<forall>pm \<in> set turns. answers (fst pm) \<Longrightarrow> 1 \<le> current_phase a \<Longrightarrow> current_phase a \<le> 4 \<Longrightarrow>
   map counters (process_turns turns a) = trajectory (length turns) (counters a)"
proof (induction turns arbitrary: a)
  case Nil
  then show ?case by simp
next
  case (Cons pm turns)
  obtain port m where pm: "pm = (port, m)" by (cases pm)
  let ?a' = "snd (process_candidate_response port m a)"
  have step: "counters ?a' = next_counters (counters a)"
    using Cons.prems pm by (simp add: counters_step)
  have "fst (counters a) = current_phase a" by (simp add: counters_def)
  then have "1 \<le> fst (next_counters (counters a)) \<and> fst (next_counters (counters a)) \<le> 4"
    using next_counters_range[of "counters a"] Cons.prems(2,3) by simp
  moreover have "current_phase ?a' = fst (counters ?a')" by (simp add: counters_def)
  ultimately have rng: "1 \<le> current_phase ?a' \<and> current_phase ?a' \<le> 4"
    by (simp only: step)
  have "map counters (process_turns turns ?a') = trajectory (length turns) (counters ?a')"
    using Cons.IH[of ?a'] Cons.prems(1) rng by simp
  then show ?case
    using pm step by (simp add: Let_def)
qed

lemma trajectory_16:
  "trajectory 16 (1, 0, 0, Active) =
    [(1,1,1,Active),(1,2,2,Active),(1,3,3,Active),
     (2,1,4,Active),(2,2,5,Active),(2,3,6,Active),(2,4,7,Active),(2,5,8,Active),(2,6,9,Active),
     (3,1,10,Active),(3,2,11,Active),(3,3,12,Active),(3,4,13,Active),
     (4,1,14,Active),(4,2,15,Active),(4,3,16,Active)]"
  by (simp add: eval_nat_numeral)

lemma init_counters: "counters (init_agent sid p jd) = (1, 0, 0, Active)"
  by (simp add: counters_def init_agent_def build_system_prompt_def)

lemma answers_question_port: "answers question_port"
  by (simp add: answers_def question_port_def)

lemma scenario_turns_answer: "\<forall>pm \<in> set (scenario_turns n). answers (fst pm)"
  by (simp add: scenario_turns_def answers_question_port)

lemma length_scenario_turns: "length (scenario_turns n) = n"
  by (simp add: scenario_turns_def)

lemma counters_fields:
  "current_phase a = fst (counters a)"
  "questions_asked_in_phase a = fst (snd (counters a))"
  "total_questions a = fst (snd (snd (counters a)))"
  "status a = snd (snd (snd (counters a)))"
  by (simp_all add: counters_def)

lemma turns_from_init:
  assumes "length turns = 16" "\<forall>pm \<in> set turns. answers (fst pm)"
  shows "map counters (process_turns turns (init_agent sid p jd)) =
    [(1,1,1,Active),(1,2,2,Active),(1,3,3,Active),
     (2,1,4,Active),(2,2,5,Active),(2,3,6,Active),(2,4,7,Active),(2,5,8,Active),(2,6,9,Active),
     (3,1,10,Active),(3,2,11,Active),(3,3,12,Active),(3,4,13,Active),
     (4,1,14,Active),(4,2,15,Active),(4,3,16,Active)]"
proof -
  have "1 \<le> current_phase (init_agent sid p jd)" "current_phase (init_agent sid p jd) \<le> 4"
    by (simp_all add: init_agent_def build_system_prompt_def)
  then have "map counters (process_turns turns (init_agent sid p jd))
      = trajectory (length turns) (counters (init_agent sid p jd))"
    using assms(2) by (rule counters_turns[rotated])
  then show ?thesis
    by (simp only: assms(1) init_counters trajectory_16)
qed

lemma length_process_turns [simp]: "length (process_turns turns a) = length turns"
  by (induction turns arbitrary: a) (auto simp: Let_def)

lemma closing_call:
  assumes "current_phase a = 4" "3 \<le> questions_asked_in_phase a"
  shows "process_candidate_response port m a =
     (Inr (Some closing_text),
      a\<lparr>conversation_history := conversation_history a
           @ [\<lparr>role = User, content = m\<rparr>, \<lparr>role = Assistant, content = closing_text\<rparr>],
        status := Completed\<rparr>)"
  using assms by (simp add: process_unfold append_user_def)

lemma process_turns_nonempty: "turns \<noteq> [] \<Longrightarrow> process_turns turns a \<noteq> []"
  by (cases turns) (auto simp: Let_def)

lemma scenario_states_nonempty:
  assumes "0 < n"
  shows "process_turns (scenario_turns n) a \<noteq> []"
proof
  assume "process_turns (scenario_turns n) a = []"
  then have "length (process_turns (scenario_turns n) a) = 0" by simp
  then have "n = 0" by (simp only: length_process_turns length_scenario_turns)
  with assms show False by simp
qed

lemma jane_after_last:
  "0 < n \<Longrightarrow> jane_after n = last (process_turns (scenario_turns n) jane_agent)"
  by (simp add: jane_after_def scenario_states_nonempty)

section \<open>The sixteen-turn scenario\<close>

text \<open>
  C1 (amended). From a freshly created session, sixteen calls of
  \<open>process_candidate_response\<close> whose ports answer with a non-empty message are
  observed in the phases 1,1,1, 2,2,2,2,2,2, 3,3,3,3, 4,4,4, the status staying
  \<open>active\<close> and \<open>total_questions\<close> reaching 16; it is the seventeenth call, whatever
  its port does, that returns the closing message and sets the status to
  \<open>completed\<close>, with \<open>total_questions\<close> still 16.
\<close>

theorem sixteen_turns_schedule:
  "length turns = 16 \<Longrightarrow> \<forall>pm \<in> set turns. answers (fst pm) \<Longrightarrow>
   map current_phase (process_turns turns (init_agent sid p jd))
     = [1, 1, 1, 2, 2, 2, 2, 2, 2, 3, 3, 3, 3, 4, 4, 4]
   \<and> map status (process_turns turns (init_agent sid p jd)) = replicate 16 Active
   \<and> total_questions (last (process_turns turns (init_agent sid p jd))) = 16
   \<and> fst (process_candidate_response port m (last (process_turns turns (init_agent sid p jd))))
       = Inr (Some closing_text)
   \<and> status (snd (process_candidate_response port m
         (last (process_turns turns (init_agent sid p jd))))) = Completed
   \<and> total_questions (snd (process_candidate_response port m
         (last (process_turns turns (init_agent sid p jd))))) = 16"
proof -
  assume len: "length turns = 16" and ans: "\<forall>pm \<in> set turns. answers (fst pm)"
  let ?states = "process_turns turns (init_agent sid p jd)"
  have cs: "map counters ?states =
    [(1,1,1,Active),(1,2,2,Active),(1,3,3,Active),
     (2,1,4,Active),(2,2,5,Active),(2,3,6,Active),(2,4,7,Active),(2,5,8,Active),(2,6,9,Active),
     (3,1,10,Active),(3,2,11,Active),(3,3,12,Active),(3,4,13,Active),
     (4,1,14,Active),(4,2,15,Active),(4,3,16,Active)]"
    using len ans by (rule turns_from_init)
  have ne: "?states \<noteq> []" using len by (metis length_process_turns list.size(3) zero_neq_numeral)
  have "map current_phase ?states = map fst (map counters ?states)"
    by (simp add: counters_def)
  then have phases: "map current_phase ?states = [1, 1, 1, 2, 2, 2, 2, 2, 2, 3, 3, 3, 3, 4, 4, 4]"
    by (simp only: cs) simp
  have "map status ?states = map (\<lambda>c. snd (snd (snd c))) (map counters ?states)"
    by (simp add: counters_def)
  then have stats: "map status ?states = replicate 16 Active"
    by (simp only: cs) (simp add: eval_nat_numeral)
  have "counters (last ?states) = last (map counters ?states)"
    using ne by (simp add: last_map)
  then have lastc: "counters (last ?states) = (4, 3, 16, Active)"
    by (simp only: cs) simp
  then have l4: "current_phase (last ?states) = 4"
    and l3: "questions_asked_in_phase (last ?states) = 3"
    and l16: "total_questions (last ?states) = 16"
    by (simp_all add: counters_def)
  have l3': "3 \<le> questions_asked_in_phase (last ?states)" using l3 by simp
  show ?thesis
    using phases stats l16 by (simp add: closing_call[OF l4 l3'])
qed

text \<open>The scenario of the specification satisfies the hypotheses of C1 (amended).\<close>

theorem sixteen_turns_schedule_witness:
  "map current_phase (process_turns (scenario_turns 16) jane_agent)
     = [1, 1, 1, 2, 2, 2, 2, 2, 2, 3, 3, 3, 3, 4, 4, 4]
   \<and> total_questions (jane_after 16) = 16
   \<and> status (snd (process_candidate_response failing_port ''Thanks.'' (jane_after 16))) = Completed"
  using sixteen_turns_schedule[of "scenario_turns 16"
          "''session-1''" jane_doe backend_jd failing_port "''Thanks.''"]
        scenario_turns_answer[of 16] length_scenario_turns[of 16]
  by (simp add: jane_after_last jane_agent_def)

text \<open>
  C1 as stated fails: after sixteen answered calls of the scenario the status is not
  \<open>completed\<close>, and the first fifteen observed phases are not 1,1,2,2,2,2,2,2,3,3,3,3,4,4,4.
\<close>

theorem sixteen_calls_not_completed:
  "status (jane_after 16) \<noteq> Completed
   \<and> map current_phase (take 15 (process_turns (scenario_turns 16) jane_agent))
       \<noteq> [1, 1, 2, 2, 2, 2, 2, 2, 3, 3, 3, 3, 4, 4, 4]"
proof -
  let ?states = "process_turns (scenario_turns 16) jane_agent"
  have cs: "map counters ?states =
    [(1,1,1,Active),(1,2,2,Active),(1,3,3,Active),
     (2,1,4,Active),(2,2,5,Active),(2,3,6,Active),(2,4,7,Active),(2,5,8,Active),(2,6,9,Active),
     (3,1,10,Active),(3,2,11,Active),(3,3,12,Active),(3,4,13,Active),
     (4,1,14,Active),(4,2,15,Active),(4,3,16,Active)]"
    unfolding jane_agent_def
    by (rule turns_from_init) (simp_all add: scenario_turns_answer length_scenario_turns)
  have ne: "?states \<noteq> []"
    by (simp add: scenario_states_nonempty)
  have "counters (last ?states) = last (map counters ?states)"
    using ne by (simp add: last_map)
  then have "counters (last ?states) = (4, 3, 16, Active)"
    by (simp only: cs) simp
  then have "status (last ?states) = Active" by (simp add: counters_def)
  then have s: "status (jane_after 16) \<noteq> Completed"
    by (simp add: jane_after_last)
  have "map current_phase (take 15 ?states) = map fst (take 15 (map counters ?states))"
    by (simp add: counters_def take_map)
  then have ph: "map current_phase (take 15 ?states) = [1, 1, 1, 2, 2, 2, 2, 2, 2, 3, 3, 3, 3, 4, 4]"
    by (simp only: cs) (simp add: eval_nat_numeral)
  have "map current_phase (take 15 ?states) \<noteq> [1, 1, 2, 2, 2, 2, 2, 2, 3, 3, 3, 3, 4, 4, 4]"
    unfolding ph by simp
  with s show ?thesis by (rule conjI)
qed

section \<open>Reachable agents\<close>

lemma opening_counters: "counters (snd (generate_opening port a)) = counters a"
  by (simp add: generate_opening_def counters_def split: sum.splits option.splits)

lemma gar_cases:
  "(fst (generate_and_record port b) = port (generation_request b)) \<and>
   ((counted (port (generation_request b)) = 0 \<and> snd (generate_and_record port b) = b) \<or>
    (\<exists>t. t \<noteq> [] \<and> port (generation_request b) = Inr (Some t) \<and>
         snd (generate_and_record port b) =
           b\<lparr>questions_asked_in_phase := questions_asked_in_phase b + 1,
             total_questions := total_questions b + 1,
             conversation_history := conversation_history b @ [\<lparr>role = Assistant, content = t\<rparr>]\<rparr>))"
  by (simp add: generate_and_record_def generate_next_message_def truthy_def counted_def
      split: sum.splits option.splits)

lemma gar_counters:
  "counters (snd (generate_and_record port b)) =
     (current_phase b, questions_asked_in_phase b + counted (port (generation_request b)),
      total_questions b + counted (port (generation_request b)), status b)"
  by (simp add: generate_and_record_def generate_next_message_def truthy_def counted_def counters_def
      split: sum.splits option.splits)

lemma counted_range: "counted r = 0 \<or> counted r = 1"
  by (simp add: counted_def split: sum.splits)

lemma process_generation:
  "1 \<le> current_phase a \<Longrightarrow> current_phase a \<le> 4 \<Longrightarrow>
   \<not> (phase_quota (current_phase a) \<le> questions_asked_in_phase a \<and> current_phase a = 4) \<Longrightarrow>
   process_candidate_response port m a = generate_and_record port (generation_state m a)"
  by (auto simp add: process_unfold generation_state_def)

lemma process_counters:
  assumes "1 \<le> current_phase a" "current_phase a \<le> 4"
  shows "counters (snd (process_candidate_response port m a)) =
     (if phase_quota (current_phase a) \<le> questions_asked_in_phase a then
        if current_phase a < 4 then
          (current_phase a + 1,
           counted (port (generation_request (advance_phase (append_user m a)))),
           total_questions a + counted (port (generation_request (advance_phase (append_user m a)))),
           status a)
        else (current_phase a, questions_asked_in_phase a, total_questions a, Completed)
      else
        (current_phase a,
         questions_asked_in_phase a + counted (port (generation_request (append_user m a))),
         total_questions a + counted (port (generation_request (append_user m a))),
         status a))"
  using assms by (simp add: process_unfold gar_counters) (simp add: counters_def)

lemma reachable_invariant:
  "reachable a \<Longrightarrow>
     1 \<le> current_phase a \<and> current_phase a \<le> 4
   \<and> 0 \<le> questions_asked_in_phase a
   \<and> questions_asked_in_phase a \<le> phase_quota (current_phase a)
   \<and> (status a = Completed \<longrightarrow> current_phase a = 4 \<and> questions_asked_in_phase a = 3)"
proof (induction rule: reachable.induct)
  case (reach_init sid p jd)
  show ?case by (simp add: init_agent_def build_system_prompt_def)
next
  case (reach_opening a port)
  have "counters (snd (generate_opening port a)) = counters a" by (rule opening_counters)
  then show ?case using reach_opening.IH by (simp add: counters_def)
next
  case (reach_process a port m)
  let ?a' = "snd (process_candidate_response port m a)"
  have r: "1 \<le> current_phase a" "current_phase a \<le> 4" using reach_process.IH by simp_all
  note pc = process_counters[OF r, of port m]
  have c1: "counted (port (generation_request (advance_phase (append_user m a)))) = 0
        \<or> counted (port (generation_request (advance_phase (append_user m a)))) = 1"
    by (rule counted_range)
  have c2: "counted (port (generation_request (append_user m a))) = 0
        \<or> counted (port (generation_request (append_user m a))) = 1"
    by (rule counted_range)
  from phase_cases[OF r] show ?case
  proof (elim disjE)
    assume "current_phase a = 1"
    then show ?thesis using pc reach_process.IH c1 c2
      by (auto simp add: counters_def split: if_splits)
  next
    assume "current_phase a = 2"
    then show ?thesis using pc reach_process.IH c1 c2
      by (auto simp add: counters_def split: if_splits)
  next
    assume "current_phase a = 3"
    then show ?thesis using pc reach_process.IH c1 c2
      by (auto simp add: counters_def split: if_splits)
  next
    assume "current_phase a = 4"
    then show ?thesis using pc reach_process.IH c1 c2
      by (auto simp add: counters_def split: if_splits)
  qed
qed

lemma reachable_process_turns:
  "reachable a \<Longrightarrow> \<forall>b \<in> set (process_turns turns a). reachable b"
proof (induction turns arbitrary: a)
  case Nil
  then show ?case by simp
next
  case (Cons pm turns)
  obtain port m where pm: "pm = (port, m)" by (cases pm)
  have "reachable (snd (process_candidate_response port m a))"
    using Cons.prems by (rule reach_process)
  then show ?case using Cons.IH pm by (simp add: Let_def)
qed

lemma reachable_jane_after: "reachable (jane_after n)"
proof -
  have r: "reachable jane_agent" unfolding jane_agent_def by (rule reach_init)
  have "jane_after n \<in> set (jane_agent # process_turns (scenario_turns n) jane_agent)"
    unfolding jane_after_def by (rule last_in_set) simp
  then show ?thesis using r reachable_process_turns[OF r, of "scenario_turns n"] by auto
qed

lemma jane_after_counters:
  "counters (jane_after n) = last ((1, 0, 0, Active) # trajectory n (1, 0, 0, Active))"
proof -
  have c: "counters jane_agent = (1, 0, 0, Active)"
    unfolding jane_agent_def by (rule init_counters)
  have "1 \<le> current_phase jane_agent" "current_phase jane_agent \<le> 4"
    using c by (simp_all add: counters_def)
  then have "map counters (process_turns (scenario_turns n) jane_agent)
      = trajectory (length (scenario_turns n)) (counters jane_agent)"
    using scenario_turns_answer[of n] by (rule counters_turns[rotated])
  then have m: "map counters (process_turns (scenario_turns n) jane_agent)
      = trajectory n (1, 0, 0, Active)"
    by (simp only: length_scenario_turns c)
  have "counters (jane_after n)
      = last (map counters (jane_agent # process_turns (scenario_turns n) jane_agent))"
    unfolding jane_after_def by (simp only: last_map list.distinct(2) not_False_eq_True)
  also have "\<dots> = last (counters jane_agent # map counters (process_turns (scenario_turns n) jane_agent))"
    by simp
  finally show ?thesis by (simp only: m c)
qed

lemma jane_after_3: "counters (jane_after 3) = (1, 3, 3, Active)"
  by (simp add: jane_after_counters eval_nat_numeral)

lemma jane_after_17: "counters (jane_after 17) = (4, 3, 16, Completed)"
  by (simp add: jane_after_counters eval_nat_numeral)

section \<open>The completed session\<close>

text \<open>
  C10. On every reachable agent whose status is \<open>completed\<close>, a further call of
  \<open>process_candidate_response\<close> appends the candidate's text as a user message and
  the fixed closing text as an assistant message and returns the closing text,
  without consulting the port; \<open>current_phase\<close>, \<open>questions_asked_in_phase\<close>,
  \<open>total_questions\<close> and \<open>status\<close> are unchanged.
\<close>

theorem completed_session_repeats_closing:
  "reachable a \<Longrightarrow> status a = Completed \<Longrightarrow>
     process_candidate_response port m a =
       (Inr (Some closing_text),
        a\<lparr>conversation_history := conversation_history a
             @ [\<lparr>role = User, content = m\<rparr>, \<lparr>role = Assistant, content = closing_text\<rparr>]\<rparr>)
   \<and> current_phase (snd (process_candidate_response port m a)) = current_phase a
   \<and> questions_asked_in_phase (snd (process_candidate_response port m a))
       = questions_asked_in_phase a
   \<and> total_questions (snd (process_candidate_response port m a)) = total_questions a
   \<and> status (snd (process_candidate_response port m a)) = status a"
proof -
  assume r: "reachable a" and c: "status a = Completed"
  from reachable_invariant[OF r] c
  have ph: "current_phase a = 4" and q: "3 \<le> questions_asked_in_phase a" by simp_all
  have "a\<lparr>conversation_history := conversation_history a
           @ [\<lparr>role = User, content = m\<rparr>, \<lparr>role = Assistant, content = closing_text\<rparr>],
          status := Completed\<rparr>
      = a\<lparr>conversation_history := conversation_history a
           @ [\<lparr>role = User, content = m\<rparr>, \<lparr>role = Assistant, content = closing_text\<rparr>]\<rparr>"
    using c by simp
  then have "process_candidate_response port m a =
       (Inr (Some closing_text),
        a\<lparr>conversation_history := conversation_history a
             @ [\<lparr>role = User, content = m\<rparr>, \<lparr>role = Assistant, content = closing_text\<rparr>]\<rparr>)"
    by (simp only: closing_call[OF ph q])
  then show ?thesis by simp
qed

text \<open>The scenario after seventeen calls is such a completed session.\<close>

theorem completed_session_repeats_closing_witness:
  "reachable (jane_after 17) \<and> status (jane_after 17) = Completed
   \<and> fst (process_candidate_response failing_port ''Any questions?'' (jane_after 17))
       = Inr (Some closing_text)
   \<and> total_questions (snd (process_candidate_response failing_port ''Any questions?''
         (jane_after 17))) = 16
   \<and> status (snd (process_candidate_response failing_port ''Any questions?''
         (jane_after 17))) = Completed"
proof -
  have r: "reachable (jane_after 17)" by (rule reachable_jane_after)
  have c: "status (jane_after 17) = Completed"
    using jane_after_17 by (simp add: counters_def)
  have t: "total_questions (jane_after 17) = 16"
    using jane_after_17 by (simp add: counters_def)
  from completed_session_repeats_closing[OF r c, of failing_port "''Any questions?''"] r c t
  show ?thesis by simp
qed

section \<open>Invariants of the phase pointer and the phase counter\<close>

text \<open>
  C5. In every reachable agent \<open>current_phase\<close> lies in 1..4 and
  \<open>questions_asked_in_phase\<close> does not exceed the quota of the phase by more than 1
  (in fact it never exceeds the quota). No operation decreases the phase:
  \<open>generate_opening\<close> leaves it alone, and \<open>process_candidate_response\<close> keeps it or
  adds exactly 1. When it adds 1, the counter is 0 in the agent right after the
  increment, from which the message is generated, so that at the end of the call
  the counter is what this one generation has counted, 0 or 1.
\<close>

theorem phase_counter_invariants:
  "reachable a \<Longrightarrow>
     1 \<le> current_phase a \<and> current_phase a \<le> 4
   \<and> questions_asked_in_phase a \<le> phase_quota (current_phase a) + 1
   \<and> questions_asked_in_phase a \<le> phase_quota (current_phase a)
   \<and> current_phase (snd (generate_opening port a)) = current_phase a
   \<and> current_phase a \<le> current_phase (snd (process_candidate_response port m a))
   \<and> current_phase (snd (process_candidate_response port m a)) \<le> current_phase a + 1
   \<and> (current_phase (snd (process_candidate_response port m a)) = current_phase a + 1 \<longrightarrow>
         snd (process_candidate_response port m a)
           = snd (generate_and_record port (advance_phase (append_user m a)))
       \<and> questions_asked_in_phase (advance_phase (append_user m a)) = 0
       \<and> questions_asked_in_phase (snd (process_candidate_response port m a))
           = counted (fst (process_candidate_response port m a)))"
proof -
  assume r: "reachable a"
  note inv = reachable_invariant[OF r]
  have rng: "1 \<le> current_phase a" "current_phase a \<le> 4" using inv by simp_all
  have op: "current_phase (snd (generate_opening port a)) = current_phase a"
    using opening_counters[of port a] by (simp add: counters_def)
  note pc = process_counters[OF rng, of port m]
  have mono: "current_phase a \<le> current_phase (snd (process_candidate_response port m a))
      \<and> current_phase (snd (process_candidate_response port m a)) \<le> current_phase a + 1"
    using pc by (simp add: counters_def split: if_splits)
  have adv: "current_phase (snd (process_candidate_response port m a)) = current_phase a + 1 \<longrightarrow>
         snd (process_candidate_response port m a)
           = snd (generate_and_record port (advance_phase (append_user m a)))
       \<and> questions_asked_in_phase (snd (process_candidate_response port m a))
           = counted (fst (process_candidate_response port m a))"
  proof
    assume up: "current_phase (snd (process_candidate_response port m a)) = current_phase a + 1"
    then have cond: "phase_quota (current_phase a) \<le> questions_asked_in_phase a"
        "current_phase a < 4"
      using pc by (simp_all add: counters_def split: if_splits)
    then have eq: "process_candidate_response port m a
        = generate_and_record port (advance_phase (append_user m a))"
      using rng by (simp add: process_unfold)
    have "questions_asked_in_phase (snd (generate_and_record port (advance_phase (append_user m a))))
        = counted (port (generation_request (advance_phase (append_user m a))))"
      using gar_counters[of port "advance_phase (append_user m a)"] by (simp add: counters_def)
    then show "snd (process_candidate_response port m a)
           = snd (generate_and_record port (advance_phase (append_user m a)))
       \<and> questions_asked_in_phase (snd (process_candidate_response port m a))
           = counted (fst (process_candidate_response port m a))"
      by (simp add: eq generate_and_record_result)
  qed
  show ?thesis using inv op mono adv by simp
qed

text \<open>The scenario after three calls: the fourth call moves it from phase 1 to phase 2.\<close>

theorem phase_counter_invariants_witness:
  "reachable (jane_after 3) \<and> current_phase (jane_after 3) = 1
   \<and> current_phase (snd (process_candidate_response question_port ''My answer.'' (jane_after 3))) = 2
   \<and> questions_asked_in_phase (snd (process_candidate_response question_port ''My answer.''
         (jane_after 3))) = 1"
proof -
  have r: "reachable (jane_after 3)" by (rule reachable_jane_after)
  have c: "current_phase (jane_after 3) = 1" "questions_asked_in_phase (jane_after 3) = 3"
    using jane_after_3 by (simp_all add: counters_def)
  have up: "current_phase (snd (process_candidate_response question_port ''My answer.''
      (jane_after 3))) = current_phase (jane_after 3) + 1"
    using process_counters[of "jane_after 3" question_port "''My answer.''"] c
    by (simp add: counters_def)
  have res: "fst (process_candidate_response question_port ''My answer.'' (jane_after 3))
      = Inr (Some ''Tell me more.'')"
    using c by (simp add: process_unfold generate_and_record_result question_port_def)
  note inv = phase_counter_invariants[OF r, of question_port "''My answer.''"]
  from inv up
  have "questions_asked_in_phase (snd (process_candidate_response question_port ''My answer.''
          (jane_after 3)))
      = counted (fst (process_candidate_response question_port ''My answer.'' (jane_after 3)))"
    by blast
  then have q: "questions_asked_in_phase (snd (process_candidate_response question_port
      ''My answer.'' (jane_after 3))) = 1"
    by (simp only: res) (simp add: counted_def truthy_def)
  show ?thesis using r c(1) up q by simp
qed

section \<open>The counters of a call\<close>

lemma process_branches:
  "process_candidate_response port m a = (Inl IndexError, append_user m a)
   \<or> process_candidate_response port m a = generate_and_record port (append_user m a)
   \<or> process_candidate_response port m a
        = generate_and_record port (advance_phase (append_user m a))
   \<or> process_candidate_response port m a =
        (Inr (Some closing_text),
         (append_user m a)\<lparr>status := Completed,
            conversation_history := conversation_history a
              @ [\<lparr>role = User, content = m\<rparr>, \<lparr>role = Assistant, content = closing_text\<rparr>]\<rparr>)"
  by (simp add: process_candidate_response_def Let_def generate_closing_def
        should_advance_phase_def py_index_def split: sum.splits)

lemma gar_total:
  "total_questions (snd (generate_and_record port b))
     = total_questions b + counted (port (generation_request b))"
  "questions_asked_in_phase (snd (generate_and_record port b))
     = questions_asked_in_phase b + counted (port (generation_request b))"
  "current_phase (snd (generate_and_record port b)) = current_phase b"
  using gar_counters[of port b] by (simp_all add: counters_def)

lemma counted_one:
  "counted r = 1 \<longleftrightarrow> (\<exists>t. t \<noteq> [] \<and> r = Inr (Some t))"
  by (auto simp add: counted_def truthy_def split: sum.splits option.splits)

text \<open>
  C6. A call of \<open>process_candidate_response\<close> never decreases \<open>total_questions\<close> and
  adds at most 1 to it. It adds 1 only when the port has returned a non-empty
  message, which is then the result of the call, and then
  \<open>questions_asked_in_phase\<close> is counted up by 1 as well (from its old value, or from
  the 0 it was reset to when the call advanced the phase). When the total stays,
  so does \<open>questions_asked_in_phase\<close>, except for that reset. \<open>generate_opening\<close> and
  \<open>_generate_closing\<close> change neither counter.
\<close>

theorem total_questions_counts_answers:
  "total_questions a \<le> total_questions (snd (process_candidate_response port m a))
   \<and> total_questions (snd (process_candidate_response port m a)) \<le> total_questions a + 1
   \<and> (total_questions (snd (process_candidate_response port m a)) = total_questions a + 1 \<longrightarrow>
        (\<exists>req t. t \<noteq> [] \<and> port req = Inr (Some t)
            \<and> fst (process_candidate_response port m a) = Inr (Some t))
        \<and> (questions_asked_in_phase (snd (process_candidate_response port m a))
              = questions_asked_in_phase a + 1
            \<or> current_phase (snd (process_candidate_response port m a)) = current_phase a + 1
              \<and> questions_asked_in_phase (snd (process_candidate_response port m a)) = 0 + 1))
   \<and> (total_questions (snd (process_candidate_response port m a)) = total_questions a \<longrightarrow>
        questions_asked_in_phase (snd (process_candidate_response port m a))
          = questions_asked_in_phase a
        \<or> current_phase (snd (process_candidate_response port m a)) = current_phase a + 1
          \<and> questions_asked_in_phase (snd (process_candidate_response port m a)) = 0)
   \<and> total_questions (snd (generate_opening port a)) = total_questions a
   \<and> questions_asked_in_phase (snd (generate_opening port a)) = questions_asked_in_phase a
   \<and> total_questions (snd (generate_closing a)) = total_questions a
   \<and> questions_asked_in_phase (snd (generate_closing a)) = questions_asked_in_phase a"
proof -
  let ?r = "process_candidate_response port m a"
  have op_eq: "total_questions (snd (generate_opening port a)) = total_questions a
      \<and> questions_asked_in_phase (snd (generate_opening port a)) = questions_asked_in_phase a"
    using opening_counters[of port a] by (simp add: counters_def)
  have cl_eq: "total_questions (snd (generate_closing a)) = total_questions a
      \<and> questions_asked_in_phase (snd (generate_closing a)) = questions_asked_in_phase a"
    by (simp add: generate_closing_def)
  have main: "total_questions a \<le> total_questions (snd ?r)
   \<and> total_questions (snd ?r) \<le> total_questions a + 1
   \<and> (total_questions (snd ?r) = total_questions a + 1 \<longrightarrow>
        (\<exists>req t. t \<noteq> [] \<and> port req = Inr (Some t) \<and> fst ?r = Inr (Some t))
        \<and> (questions_asked_in_phase (snd ?r) = questions_asked_in_phase a + 1
            \<or> current_phase (snd ?r) = current_phase a + 1
              \<and> questions_asked_in_phase (snd ?r) = 0 + 1))
   \<and> (total_questions (snd ?r) = total_questions a \<longrightarrow>
        questions_asked_in_phase (snd ?r) = questions_asked_in_phase a
        \<or> current_phase (snd ?r) = current_phase a + 1
          \<and> questions_asked_in_phase (snd ?r) = 0)"
  proof -
    consider
        (err) "?r = (Inl IndexError, append_user m a)"
      | (same) "?r = generate_and_record port (append_user m a)"
      | (adv) "?r = generate_and_record port (advance_phase (append_user m a))"
      | (fin) "?r = (Inr (Some closing_text),
           (append_user m a)\<lparr>status := Completed,
              conversation_history := conversation_history a
                @ [\<lparr>role = User, content = m\<rparr>, \<lparr>role = Assistant, content = closing_text\<rparr>]\<rparr>)"
      using process_branches[of port m a] by blast
    then show ?thesis
    proof cases
      case err
      then show ?thesis by simp
    next
      case same
      let ?req = "generation_request (append_user m a)"
      have f: "fst ?r = port ?req" by (simp add: same generate_and_record_result)
      have c: "counted (port ?req) = 0 \<or> counted (port ?req) = 1" by (rule counted_range)
      have one: "counted (port ?req) = 1 \<Longrightarrow> \<exists>req t. t \<noteq> [] \<and> port req = Inr (Some t) \<and> fst ?r = Inr (Some t)"
        using f by (auto simp add: counted_one)
      from c show ?thesis
      proof
        assume "counted (port ?req) = 0"
        then show ?thesis by (simp add: same gar_total)
      next
        assume c1: "counted (port ?req) = 1"
        from one[OF c1] c1 show ?thesis by (simp add: same gar_total)
      qed
    next
      case adv
      let ?req = "generation_request (advance_phase (append_user m a))"
      have f: "fst ?r = port ?req" by (simp add: adv generate_and_record_result)
      have c: "counted (port ?req) = 0 \<or> counted (port ?req) = 1" by (rule counted_range)
      have one: "counted (port ?req) = 1 \<Longrightarrow> \<exists>req t. t \<noteq> [] \<and> port req = Inr (Some t) \<and> fst ?r = Inr (Some t)"
        using f by (auto simp add: counted_one)
      from c show ?thesis
      proof
        assume "counted (port ?req) = 0"
        then show ?thesis by (simp add: adv gar_total)
      next
        assume c1: "counted (port ?req) = 1"
        from one[OF c1] c1 show ?thesis by (simp add: adv gar_total)
      qed
    next
      case fin
      then show ?thesis by simp
    qed
  qed
  from main op_eq cl_eq show ?thesis by blast
qed


lemma jane_agent_counters:
  "current_phase jane_agent = 1" "questions_asked_in_phase jane_agent = 0"
  "total_questions jane_agent = 0" "status jane_agent = Active"
  "conversation_history jane_agent = []"
  by (simp_all add: jane_agent_def init_agent_def build_system_prompt_def)

text \<open>A first turn that the port answers, and one on which the port fails.\<close>

theorem total_questions_counts_answers_witness:
  "total_questions (snd (process_candidate_response question_port ''My answer.'' jane_agent))
     = total_questions jane_agent + 1
   \<and> fst (process_candidate_response question_port ''My answer.'' jane_agent)
       = Inr (Some ''Tell me more.'')
   \<and> questions_asked_in_phase (snd (process_candidate_response question_port ''My answer.''
         jane_agent)) = questions_asked_in_phase jane_agent + 1
   \<and> total_questions (snd (process_candidate_response failing_port ''My answer.'' jane_agent))
       = total_questions jane_agent
   \<and> questions_asked_in_phase (snd (process_candidate_response failing_port ''My answer.''
         jane_agent)) = questions_asked_in_phase jane_agent"
proof -
  have up: "total_questions (snd (process_candidate_response question_port ''My answer.''
      jane_agent)) = total_questions jane_agent + 1"
    using process_counters[of jane_agent question_port "''My answer.''"]
    by (simp add: jane_agent_counters counters_def question_port_def counted_def truthy_def)
  have res: "fst (process_candidate_response question_port ''My answer.'' jane_agent)
      = Inr (Some ''Tell me more.'')"
    by (simp add: process_unfold jane_agent_counters generate_and_record_result question_port_def)
  have same: "total_questions (snd (process_candidate_response failing_port ''My answer.''
      jane_agent)) = total_questions jane_agent"
    using process_counters[of jane_agent failing_port "''My answer.''"]
    by (simp add: jane_agent_counters counters_def failing_port_def counted_def)
  have ph: "current_phase (snd (process_candidate_response question_port ''My answer.''
      jane_agent)) = current_phase jane_agent"
      "current_phase (snd (process_candidate_response failing_port ''My answer.''
      jane_agent)) = current_phase jane_agent"
    using process_counters[of jane_agent question_port "''My answer.''"]
      process_counters[of jane_agent failing_port "''My answer.''"]
    by (simp_all add: jane_agent_counters counters_def)
  note t1 = total_questions_counts_answers[of jane_agent question_port "''My answer.''"]
  note t2 = total_questions_counts_answers[of jane_agent failing_port "''My answer.''"]
  from t1 up ph(1)
  have q1: "questions_asked_in_phase (snd (process_candidate_response question_port
      ''My answer.'' jane_agent)) = questions_asked_in_phase jane_agent + 1"
    by auto
  from t2 same ph(2)
  have q2: "questions_asked_in_phase (snd (process_candidate_response failing_port
      ''My answer.'' jane_agent)) = questions_asked_in_phase jane_agent"
    by auto
  from up res q1 same q2 show ?thesis by blast
qed

section \<open>Advancement is decided before the message is generated\<close>

text \<open>
  C2. For an agent whose phase is in 1..4 the check of
  \<open>process_candidate_response\<close>, made on the agent before anything is generated,
  is \<open>questions_asked_in_phase >= max_questions\<close> of the current phase. The phase is
  incremented, by exactly 1, if and only if the check holds and the phase is below
  4; the status changes only when the check holds in phase 4. When the phase is
  incremented, the request handed to the port carries the system prompt rebuilt for
  the new phase, that prompt is the agent's prompt afterwards, and the counter
  restarts from 0. When the check fails, the stored prompt is used and kept.
\<close>

theorem advancement_precedes_generation:
  "1 \<le> current_phase a \<Longrightarrow> current_phase a \<le> 4 \<Longrightarrow>
     should_advance_phase (append_user m a)
       = Inr (phase_quota (current_phase a) \<le> questions_asked_in_phase a)
   \<and> (current_phase (snd (process_candidate_response port m a)) = current_phase a + 1
        \<longleftrightarrow> phase_quota (current_phase a) \<le> questions_asked_in_phase a \<and> current_phase a < 4)
   \<and> (current_phase (snd (process_candidate_response port m a)) = current_phase a
        \<longleftrightarrow> \<not> (phase_quota (current_phase a) \<le> questions_asked_in_phase a \<and> current_phase a < 4))
   \<and> (status (snd (process_candidate_response port m a)) \<noteq> status a
        \<longrightarrow> phase_quota (current_phase a) \<le> questions_asked_in_phase a \<and> current_phase a = 4)
   \<and> (phase_quota (current_phase a) \<le> questions_asked_in_phase a \<and> current_phase a < 4 \<longrightarrow>
         fst (process_candidate_response port m a)
           = port ((''system'',
                    system_prompt_text (candidate_profile a) (job_description a)
                      (current_phase a + 1))
                   # map as_chat
                       (last_n 10 (conversation_history a @ [\<lparr>role = User, content = m\<rparr>])))
       \<and> system_prompt (snd (process_candidate_response port m a))
           = system_prompt_text (candidate_profile a) (job_description a) (current_phase a + 1)
       \<and> questions_asked_in_phase (snd (process_candidate_response port m a))
           = 0 + counted (fst (process_candidate_response port m a)))
   \<and> (\<not> phase_quota (current_phase a) \<le> questions_asked_in_phase a \<longrightarrow>
         fst (process_candidate_response port m a)
           = port ((''system'', system_prompt a)
                   # map as_chat
                       (last_n 10 (conversation_history a @ [\<lparr>role = User, content = m\<rparr>])))
       \<and> system_prompt (snd (process_candidate_response port m a)) = system_prompt a
       \<and> questions_asked_in_phase (snd (process_candidate_response port m a))
           = questions_asked_in_phase a + counted (fst (process_candidate_response port m a)))"
proof -
  assume rng: "1 \<le> current_phase a" "current_phase a \<le> 4"
  let ?r = "process_candidate_response port m a"
  let ?q = "phase_quota (current_phase a) \<le> questions_asked_in_phase a"
  have chk: "should_advance_phase (append_user m a) = Inr ?q"
    using rng by (simp add: should_advance_in_range)
  note pc = process_counters[OF rng, of port m]
  have up: "current_phase (snd ?r) = current_phase a + 1 \<longleftrightarrow> ?q \<and> current_phase a < 4"
    using pc by (simp add: counters_def split: if_splits)
  have keep: "current_phase (snd ?r) = current_phase a \<longleftrightarrow> \<not> (?q \<and> current_phase a < 4)"
    using pc by (simp add: counters_def split: if_splits)
  have st: "status (snd ?r) \<noteq> status a \<longrightarrow> ?q \<and> current_phase a = 4"
    using pc rng by (auto simp add: counters_def split: if_splits)
  have sp: "system_prompt (snd (generate_and_record port b)) = system_prompt b" for b
    by (simp add: generate_and_record_def generate_next_message_def
        split: sum.splits option.splits)
  have adv: "?q \<and> current_phase a < 4 \<longrightarrow>
         fst ?r = port ((''system'',
                    system_prompt_text (candidate_profile a) (job_description a)
                      (current_phase a + 1))
                   # map as_chat
                       (last_n 10 (conversation_history a @ [\<lparr>role = User, content = m\<rparr>])))
       \<and> system_prompt (snd ?r)
           = system_prompt_text (candidate_profile a) (job_description a) (current_phase a + 1)
       \<and> questions_asked_in_phase (snd ?r) = 0 + counted (fst ?r)"
  proof
    assume c: "?q \<and> current_phase a < 4"
    then have eq: "?r = generate_and_record port (advance_phase (append_user m a))"
      using rng by (simp add: process_unfold)
    show "fst ?r = port ((''system'',
                    system_prompt_text (candidate_profile a) (job_description a)
                      (current_phase a + 1))
                   # map as_chat
                       (last_n 10 (conversation_history a @ [\<lparr>role = User, content = m\<rparr>])))
       \<and> system_prompt (snd ?r)
           = system_prompt_text (candidate_profile a) (job_description a) (current_phase a + 1)
       \<and> questions_asked_in_phase (snd ?r) = 0 + counted (fst ?r)"
      by (simp add: eq generate_and_record_result gar_total sp) (simp add: generation_request_def)
  qed
  have stay: "\<not> ?q \<longrightarrow>
         fst ?r = port ((''system'', system_prompt a)
                   # map as_chat
                       (last_n 10 (conversation_history a @ [\<lparr>role = User, content = m\<rparr>])))
       \<and> system_prompt (snd ?r) = system_prompt a
       \<and> questions_asked_in_phase (snd ?r) = questions_asked_in_phase a + counted (fst ?r)"
  proof
    assume c: "\<not> ?q"
    then have eq: "?r = generate_and_record port (append_user m a)"
      using rng by (simp add: process_unfold)
    show "fst ?r = port ((''system'', system_prompt a)
                   # map as_chat
                       (last_n 10 (conversation_history a @ [\<lparr>role = User, content = m\<rparr>])))
       \<and> system_prompt (snd ?r) = system_prompt a
       \<and> questions_asked_in_phase (snd ?r) = questions_asked_in_phase a + counted (fst ?r)"
      by (simp add: eq generate_and_record_result gar_total sp) (simp add: generation_request_def)
  qed
  from chk up keep st adv stay show ?thesis by blast
qed

text \<open>The fourth call of the scenario crosses from phase 1 to phase 2.\<close>

theorem advancement_precedes_generation_witness:
  "current_phase (jane_after 3) = 1
   \<and> phase_quota (current_phase (jane_after 3)) \<le> questions_asked_in_phase (jane_after 3)
   \<and> current_phase (snd (process_candidate_response question_port ''My answer.'' (jane_after 3))) = 2
   \<and> system_prompt (snd (process_candidate_response question_port ''My answer.'' (jane_after 3)))
       = system_prompt_text (candidate_profile (jane_after 3)) (job_description (jane_after 3)) 2
   \<and> fst (process_candidate_response question_port ''My answer.'' (jane_after 3))
       = Inr (Some ''Tell me more.'')"
proof -
  have c: "current_phase (jane_after 3) = 1" "questions_asked_in_phase (jane_after 3) = 3"
    using jane_after_3 by (simp_all add: counters_def)
  have rng: "1 \<le> current_phase (jane_after 3)" "current_phase (jane_after 3) \<le> 4"
    using c by simp_all
  have q: "phase_quota (current_phase (jane_after 3)) \<le> questions_asked_in_phase (jane_after 3)"
    using c by simp
  have lt: "current_phase (jane_after 3) < 4" using c by simp
  note t = advancement_precedes_generation[OF rng, of "''My answer.''" question_port]
  from t q lt
  have up: "current_phase (snd (process_candidate_response question_port ''My answer.''
      (jane_after 3))) = current_phase (jane_after 3) + 1"
    by blast
  from t q lt
  have sp: "system_prompt (snd (process_candidate_response question_port ''My answer.''
      (jane_after 3)))
      = system_prompt_text (candidate_profile (jane_after 3)) (job_description (jane_after 3))
          (current_phase (jane_after 3) + 1)"
    by blast
  from t q lt
  have "fst (process_candidate_response question_port ''My answer.'' (jane_after 3))
      = question_port ((''system'',
                    system_prompt_text (candidate_profile (jane_after 3))
                      (job_description (jane_after 3)) (current_phase (jane_after 3) + 1))
                   # map as_chat
                       (last_n 10 (conversation_history (jane_after 3)
                          @ [\<lparr>role = User, content = ''My answer.''\<rparr>])))"
    by blast
  then have res: "fst (process_candidate_response question_port ''My answer.'' (jane_after 3))
      = Inr (Some ''Tell me more.'')"
    by (simp add: question_port_def)
  show ?thesis using c(1) q up sp res by simp
qed

section \<open>A failing port\<close>

text \<open>
  C3 as stated fails: when the port fails on the call that crosses a phase boundary
  (here the fourth call of the scenario), the exception is propagated, but
  \<open>current_phase\<close> and \<open>questions_asked_in_phase\<close> are not what they were before the
  call.
\<close>

theorem failed_turn_advances_phase:
  "fst (process_candidate_response failing_port ''My answer.'' (jane_after 3))
     = Inl PortException
   \<and> current_phase (snd (process_candidate_response failing_port ''My answer.'' (jane_after 3)))
       \<noteq> current_phase (jane_after 3)
   \<and> questions_asked_in_phase
        (snd (process_candidate_response failing_port ''My answer.'' (jane_after 3)))
       \<noteq> questions_asked_in_phase (jane_after 3)"
proof -
  have c: "current_phase (jane_after 3) = 1" "questions_asked_in_phase (jane_after 3) = 3"
    using jane_after_3 by (simp_all add: counters_def)
  have eq: "process_candidate_response failing_port ''My answer.'' (jane_after 3)
      = (Inl PortException, advance_phase (append_user ''My answer.'' (jane_after 3)))"
    using c by (simp add: process_unfold generate_and_record_fail failing_port_def)
  show ?thesis by (simp add: eq c)
qed

text \<open>
  C3 (amended). When a call reaches the generation and the port fails on its request,
  the port's exception is the outcome of the call and the agent is left as it was
  when the request was built: the candidate's text is appended as a user message,
  \<open>total_questions\<close>, \<open>status\<close> and the rest of the transcript are unchanged;
  \<open>current_phase\<close>, \<open>questions_asked_in_phase\<close> and the system prompt are unchanged
  when the quota was not reached, and otherwise the phase is already incremented,
  the counter reset to 0 and the prompt rebuilt.
\<close>

theorem failed_generation_state:
  "1 \<le> current_phase a \<Longrightarrow> current_phase a \<le> 4 \<Longrightarrow>
   \<not> (phase_quota (current_phase a) \<le> questions_asked_in_phase a \<and> current_phase a = 4) \<Longrightarrow>
   port (generation_request (generation_state m a)) = Inl e \<Longrightarrow>
     process_candidate_response port m a = (Inl e, generation_state m a)
   \<and> conversation_history (snd (process_candidate_response port m a))
       = conversation_history a @ [\<lparr>role = User, content = m\<rparr>]
   \<and> total_questions (snd (process_candidate_response port m a)) = total_questions a
   \<and> status (snd (process_candidate_response port m a)) = status a
   \<and> (\<not> phase_quota (current_phase a) \<le> questions_asked_in_phase a \<longrightarrow>
         current_phase (snd (process_candidate_response port m a)) = current_phase a
       \<and> questions_asked_in_phase (snd (process_candidate_response port m a))
           = questions_asked_in_phase a
       \<and> system_prompt (snd (process_candidate_response port m a)) = system_prompt a)
   \<and> (phase_quota (current_phase a) \<le> questions_asked_in_phase a \<longrightarrow>
         current_phase (snd (process_candidate_response port m a)) = current_phase a + 1
       \<and> questions_asked_in_phase (snd (process_candidate_response port m a)) = 0
       \<and> system_prompt (snd (process_candidate_response port m a))
           = system_prompt_text (candidate_profile a) (job_description a) (current_phase a + 1))"
proof -
  assume rng: "1 \<le> current_phase a" "current_phase a \<le> 4"
    and nc: "\<not> (phase_quota (current_phase a) \<le> questions_asked_in_phase a \<and> current_phase a = 4)"
    and fail: "port (generation_request (generation_state m a)) = Inl e"
  have "process_candidate_response port m a = generate_and_record port (generation_state m a)"
    using rng nc by (rule process_generation)
  then have eq: "process_candidate_response port m a = (Inl e, generation_state m a)"
    by (simp only: generate_and_record_fail[of port "generation_state m a" e, OF fail])
  show ?thesis by (simp add: eq generation_state_def)
qed

text \<open>The port failing on the first call, and on the fourth call, of the scenario.\<close>

theorem failed_generation_state_witness:
  "process_candidate_response failing_port ''My answer.'' jane_agent
     = (Inl PortException, generation_state ''My answer.'' jane_agent)
   \<and> current_phase (snd (process_candidate_response failing_port ''My answer.'' jane_agent)) = 1
   \<and> questions_asked_in_phase
        (snd (process_candidate_response failing_port ''My answer.'' jane_agent)) = 0
   \<and> process_candidate_response failing_port ''My answer.'' (jane_after 3)
       = (Inl PortException, generation_state ''My answer.'' (jane_after 3))
   \<and> current_phase (snd (process_candidate_response failing_port ''My answer.'' (jane_after 3))) = 2
   \<and> total_questions (snd (process_candidate_response failing_port ''My answer.'' (jane_after 3))) = 3"
proof -
  have c: "current_phase (jane_after 3) = 1" "questions_asked_in_phase (jane_after 3) = 3"
      "total_questions (jane_after 3) = 3"
    using jane_after_3 by (simp_all add: counters_def)
  have f: "failing_port req = Inl PortException" for req
    by (simp add: failing_port_def)
  have t0: "process_candidate_response failing_port ''My answer.'' jane_agent
     = (Inl PortException, generation_state ''My answer.'' jane_agent)
   \<and> current_phase (snd (process_candidate_response failing_port ''My answer.'' jane_agent)) = 1
   \<and> questions_asked_in_phase
        (snd (process_candidate_response failing_port ''My answer.'' jane_agent)) = 0"
    using failed_generation_state[where a = jane_agent and m = "''My answer.''" and port = failing_port
        and e = PortException] f
    by (simp add: jane_agent_counters generation_state_def)
  have t3: "process_candidate_response failing_port ''My answer.'' (jane_after 3)
       = (Inl PortException, generation_state ''My answer.'' (jane_after 3))
   \<and> current_phase (snd (process_candidate_response failing_port ''My answer.'' (jane_after 3))) = 2
   \<and> total_questions (snd (process_candidate_response failing_port ''My answer.'' (jane_after 3))) = 3"
    using failed_generation_state[where a = "jane_after 3" and m = "''My answer.''"
        and port = failing_port and e = PortException] f
    by (simp add: c generation_state_def)
  from t0 t3 show ?thesis by blast
qed

section \<open>The bounded conversation window\<close>

lemma answered_call_length:
  assumes "answers port" "1 \<le> current_phase a" "current_phase a \<le> 4"
  shows "length (conversation_history (snd (process_candidate_response port m a)))
     = length (conversation_history a) + 2"
proof -
  have g: "\<And>b. \<exists>t. t \<noteq> [] \<and> port (generation_request b) = Inr (Some t)"
    using assms(1) unfolding answers_def by metis
  obtain t1 where t1: "t1 \<noteq> []" "port (generation_request (append_user m a)) = Inr (Some t1)"
    using g by blast
  obtain t2 where t2: "t2 \<noteq> []"
      "port (generation_request (advance_phase (append_user m a))) = Inr (Some t2)"
    using g by blast
  show ?thesis
    using assms(2,3) t1 t2 by (simp add: process_unfold generate_and_record_answer)
qed

lemma answered_turns_length:
  "reachable a \<Longrightarrow> \<forall>pm \<in> set turns. answers (fst pm) \<Longrightarrow>
   length (conversation_history (last (a # process_turns turns a)))
     = length (conversation_history a) + 2 * length turns"
proof (induction turns arbitrary: a)
  case Nil
  then show ?case by simp
next
  case (Cons pm turns)
  obtain port m where pm: "pm = (port, m)" by (cases pm)
  let ?a' = "snd (process_candidate_response port m a)"
  have r': "reachable ?a'" using Cons.prems(1) by (rule reach_process)
  have rng: "1 \<le> current_phase a" "current_phase a \<le> 4"
    using reachable_invariant[OF Cons.prems(1)] by simp_all
  have ans: "answers port" using Cons.prems(2) pm by simp
  have step: "length (conversation_history ?a') = length (conversation_history a) + 2"
    using ans rng by (rule answered_call_length)
  have "length (conversation_history (last (?a' # process_turns turns ?a')))
      = length (conversation_history ?a') + 2 * length turns"
    using Cons.IH[OF r'] Cons.prems(2) by simp
  moreover have "last (a # process_turns (pm # turns) a) = last (?a' # process_turns turns ?a')"
    by (simp add: pm Let_def)
  ultimately show ?case using step by simp
qed

lemma jane_after_length: "length (conversation_history (jane_after n)) = 2 * n"
proof -
  have r: "reachable jane_agent" unfolding jane_agent_def by (rule reach_init)
  have "length (conversation_history (last (jane_agent # process_turns (scenario_turns n) jane_agent)))
      = length (conversation_history jane_agent) + 2 * length (scenario_turns n)"
    using r scenario_turns_answer[of n] by (rule answered_turns_length)
  then show ?thesis
    by (simp add: jane_after_def length_scenario_turns jane_agent_counters)
qed

lemma jane_after_15: "counters (jane_after 15) = (4, 2, 15, Active)"
  by (simp add: jane_after_counters eval_nat_numeral)

lemma process_turns_append:
  "process_turns (xs @ ys) a
     = process_turns xs a @ process_turns ys (last (a # process_turns xs a))"
proof (induction xs arbitrary: a)
  case Nil
  show ?case by simp
next
  case (Cons pm xs)
  obtain port m where pm: "pm = (port, m)" by (cases pm)
  show ?case using Cons.IH by (simp add: pm Let_def)
qed

lemma jane_step:
  "jane_after (Suc n) = snd (process_candidate_response question_port ''My answer.'' (jane_after n))"
proof -
  have "scenario_turns (Suc n) = scenario_turns n @ [(question_port, ''My answer.'')]"
    by (simp add: scenario_turns_def replicate_append_same)
  then show ?thesis
    by (simp add: jane_after_def process_turns_append Let_def)
qed

lemma scenario_call_history:
  assumes "1 \<le> current_phase a" "current_phase a \<le> 4"
    and "\<not> (phase_quota (current_phase a) \<le> questions_asked_in_phase a \<and> current_phase a = 4)"
  shows "conversation_history (snd (process_candidate_response question_port m a))
     = conversation_history a
         @ [\<lparr>role = User, content = m\<rparr>, \<lparr>role = Assistant, content = ''Tell me more.''\<rparr>]"
proof -
  have "process_candidate_response question_port m a
      = generate_and_record question_port (generation_state m a)"
    using assms by (rule process_generation)
  moreover have "question_port (generation_request (generation_state m a))
      = Inr (Some ''Tell me more.'')"
    by (simp add: question_port_def)
  ultimately show ?thesis
    by (simp add: generate_and_record_answer generation_state_def)
qed

lemma jane_after_10_to_14:
  "counters (jane_after 10) = (3, 1, 10, Active)"
  "counters (jane_after 11) = (3, 2, 11, Active)"
  "counters (jane_after 12) = (3, 3, 12, Active)"
  "counters (jane_after 13) = (3, 4, 13, Active)"
  "counters (jane_after 14) = (4, 1, 14, Active)"
  by (simp_all add: jane_after_counters eval_nat_numeral)

lemma jane_next_history:
  assumes "counters (jane_after n) = (ph, q, t, st)" "1 \<le> ph" "ph \<le> 4"
    and "\<not> (phase_quota ph \<le> q \<and> ph = 4)"
  shows "conversation_history (jane_after (Suc n))
     = conversation_history (jane_after n)
         @ [\<lparr>role = User, content = ''My answer.''\<rparr>,
            \<lparr>role = Assistant, content = ''Tell me more.''\<rparr>]"
proof -
  have c: "current_phase (jane_after n) = ph" "questions_asked_in_phase (jane_after n) = q"
    using assms(1) by (simp_all add: counters_def)
  show ?thesis
    unfolding jane_step
    by (rule scenario_call_history) (simp_all add: c assms)
qed

lemma jane_after_15_history:
  "conversation_history (jane_after 15)
     = conversation_history (jane_after 10)
         @ [\<lparr>role = User, content = ''My answer.''\<rparr>,
            \<lparr>role = Assistant, content = ''Tell me more.''\<rparr>,
            \<lparr>role = User, content = ''My answer.''\<rparr>,
            \<lparr>role = Assistant, content = ''Tell me more.''\<rparr>,
            \<lparr>role = User, content = ''My answer.''\<rparr>,
            \<lparr>role = Assistant, content = ''Tell me more.''\<rparr>,
            \<lparr>role = User, content = ''My answer.''\<rparr>,
            \<lparr>role = Assistant, content = ''Tell me more.''\<rparr>,
            \<lparr>role = User, content = ''My answer.''\<rparr>,
            \<lparr>role = Assistant, content = ''Tell me more.''\<rparr>]"
proof -
  have s: "(11::nat) = Suc 10" "(12::nat) = Suc 11" "(13::nat) = Suc 12" "(14::nat) = Suc 13"
      "(15::nat) = Suc 14"
    by simp_all
  have h11: "conversation_history (jane_after (Suc 10))
     = conversation_history (jane_after 10)
         @ [\<lparr>role = User, content = ''My answer.''\<rparr>,
            \<lparr>role = Assistant, content = ''Tell me more.''\<rparr>]"
    by (rule jane_next_history[OF jane_after_10_to_14(1)]) simp_all
  have h12: "conversation_history (jane_after (Suc 11))
     = conversation_history (jane_after 11)
         @ [\<lparr>role = User, content = ''My answer.''\<rparr>,
            \<lparr>role = Assistant, content = ''Tell me more.''\<rparr>]"
    by (rule jane_next_history[OF jane_after_10_to_14(2)]) simp_all
  have h13: "conversation_history (jane_after (Suc 12))
     = conversation_history (jane_after 12)
         @ [\<lparr>role = User, content = ''My answer.''\<rparr>,
            \<lparr>role = Assistant, content = ''Tell me more.''\<rparr>]"
    by (rule jane_next_history[OF jane_after_10_to_14(3)]) simp_all
  have h14: "conversation_history (jane_after (Suc 13))
     = conversation_history (jane_after 13)
         @ [\<lparr>role = User, content = ''My answer.''\<rparr>,
            \<lparr>role = Assistant, content = ''Tell me more.''\<rparr>]"
    by (rule jane_next_history[OF jane_after_10_to_14(4)]) simp_all
  have h15: "conversation_history (jane_after (Suc 14))
     = conversation_history (jane_after 14)
         @ [\<lparr>role = User, content = ''My answer.''\<rparr>,
            \<lparr>role = Assistant, content = ''Tell me more.''\<rparr>]"
    by (rule jane_next_history[OF jane_after_10_to_14(5)]) simp_all
  show ?thesis
    using h11 h12 h13 h14 h15 by (simp only: s[symmetric]) simp
qed

text \<open>
  C8. The request built by \<open>_generate_next_message\<close> is the agent's current system
  prompt, under the role name \<open>system\<close>, followed by the last 10 entries of the
  transcript (all of them when there are fewer), each as the pair of its role name
  and its content, in transcript order and whatever their roles: at most 11
  messages, the tail being a suffix of the transcript. With 30 recorded messages the
  tail is exactly the last 10. A call of \<open>process_candidate_response\<close> that generates
  hands the port such a request: the system prompt, rebuilt when the call advances
  the phase, followed by the last 10 entries of the transcript with the candidate's
  message appended.
\<close>

theorem generation_window:
  "generation_request a
     = (''system'', system_prompt a)
         # map (\<lambda>msg. (case role msg of System \<Rightarrow> ''system'' | Assistant \<Rightarrow> ''assistant''
                          | User \<Rightarrow> ''user'', content msg))
             (drop (length (conversation_history a) - 10) (conversation_history a))
   \<and> length (generation_request a) \<le> 11
   \<and> length (tl (generation_request a)) = min 10 (length (conversation_history a))
   \<and> (\<exists>older.
         map (\<lambda>msg. (case role msg of System \<Rightarrow> ''system'' | Assistant \<Rightarrow> ''assistant''
                        | User \<Rightarrow> ''user'', content msg))
           (conversation_history a) = older @ tl (generation_request a))
   \<and> (length (conversation_history a) = 30 \<longrightarrow>
         tl (generation_request a)
           = map (\<lambda>msg. (case role msg of System \<Rightarrow> ''system'' | Assistant \<Rightarrow> ''assistant''
                            | User \<Rightarrow> ''user'', content msg))
               (drop 20 (conversation_history a))
       \<and> length (tl (generation_request a)) = 10)
   \<and> (1 \<le> current_phase a \<and> current_phase a \<le> 4
        \<and> \<not> (phase_quota (current_phase a) \<le> questions_asked_in_phase a \<and> current_phase a = 4)
       \<longrightarrow>
         fst (process_candidate_response port m a)
           = port ((''system'',
                    if phase_quota (current_phase a) \<le> questions_asked_in_phase a
                    then system_prompt_text (candidate_profile a) (job_description a)
                           (current_phase a + 1)
                    else system_prompt a)
                   # map (\<lambda>msg. (case role msg of System \<Rightarrow> ''system''
                                    | Assistant \<Rightarrow> ''assistant'' | User \<Rightarrow> ''user'', content msg))
                       (drop (length (conversation_history a) + 1 - 10)
                          (conversation_history a @ [\<lparr>role = User, content = m\<rparr>]))))"
proof -
  let ?h = "conversation_history a"
  let ?f = "\<lambda>msg. (case role msg of System \<Rightarrow> ''system'' | Assistant \<Rightarrow> ''assistant''
                      | User \<Rightarrow> ''user'', content msg)"
  have ac: "as_chat = ?f"
    by (rule ext) (simp add: as_chat_def role_str_def)
  have req: "generation_request b
     = (''system'', system_prompt b)
         # map ?f (drop (length (conversation_history b) - 10) (conversation_history b))" for b
    by (simp add: generation_request_def last_n_def ac)
  have len: "length (generation_request a) \<le> 11"
    by (simp add: req)
  have win: "length (tl (generation_request a)) = min 10 (length ?h)"
    by (simp add: req)
  have "map ?f ?h = map ?f (take (length ?h - 10) ?h) @ map ?f (drop (length ?h - 10) ?h)"
    by (simp only: map_append[symmetric] append_take_drop_id)
  then have suf: "\<exists>older. map ?f ?h = older @ tl (generation_request a)"
    by (simp add: req)
  have thirty: "length ?h = 30 \<longrightarrow>
         tl (generation_request a) = map ?f (drop 20 ?h)
       \<and> length (tl (generation_request a)) = 10"
    by (simp add: req)
  have proc: "1 \<le> current_phase a \<and> current_phase a \<le> 4
        \<and> \<not> (phase_quota (current_phase a) \<le> questions_asked_in_phase a \<and> current_phase a = 4)
       \<longrightarrow>
         fst (process_candidate_response port m a)
           = port ((''system'',
                    if phase_quota (current_phase a) \<le> questions_asked_in_phase a
                    then system_prompt_text (candidate_profile a) (job_description a)
                           (current_phase a + 1)
                    else system_prompt a)
                   # map ?f
                       (drop (length ?h + 1 - 10) (?h @ [\<lparr>role = User, content = m\<rparr>])))"
  proof
    assume h: "1 \<le> current_phase a \<and> current_phase a \<le> 4
        \<and> \<not> (phase_quota (current_phase a) \<le> questions_asked_in_phase a \<and> current_phase a = 4)"
    then have "process_candidate_response port m a
        = generate_and_record port (generation_state m a)"
      by (simp add: process_generation)
    then have "fst (process_candidate_response port m a)
        = port (generation_request (generation_state m a))"
      by (simp only: generate_and_record_result)
    also have "generation_request (generation_state m a)
        = (''system'',
             if phase_quota (current_phase a) \<le> questions_asked_in_phase a
             then system_prompt_text (candidate_profile a) (job_description a)
                    (current_phase a + 1)
             else system_prompt a)
            # map ?f (drop (length ?h + 1 - 10) (?h @ [\<lparr>role = User, content = m\<rparr>]))"
      by (simp add: req generation_state_def)
    finally show "fst (process_candidate_response port m a)
           = port ((''system'',
                    if phase_quota (current_phase a) \<le> questions_asked_in_phase a
                    then system_prompt_text (candidate_profile a) (job_description a)
                           (current_phase a + 1)
                    else system_prompt a)
                   # map ?f
                       (drop (length ?h + 1 - 10) (?h @ [\<lparr>role = User, content = m\<rparr>])))" .
  qed
  from req[of a] len win suf thirty proc show ?thesis by blast
qed

text \<open>
  After fifteen answered calls the scenario has 30 recorded messages; the request
  carries the last ten, and the request of the sixteenth call the last nine and
  the candidate's new message.
\<close>

theorem generation_window_witness:
  "length (conversation_history (jane_after 15)) = 30
   \<and> tl (generation_request (jane_after 15))
       = [(''user'', ''My answer.''), (''assistant'', ''Tell me more.''),
          (''user'', ''My answer.''), (''assistant'', ''Tell me more.''),
          (''user'', ''My answer.''), (''assistant'', ''Tell me more.''),
          (''user'', ''My answer.''), (''assistant'', ''Tell me more.''),
          (''user'', ''My answer.''), (''assistant'', ''Tell me more.'')]
   \<and> fst (process_candidate_response question_port ''What next?'' (jane_after 15))
       = question_port
           [(''system'', system_prompt (jane_after 15)),
            (''assistant'', ''Tell me more.''),
            (''user'', ''My answer.''), (''assistant'', ''Tell me more.''),
            (''user'', ''My answer.''), (''assistant'', ''Tell me more.''),
            (''user'', ''My answer.''), (''assistant'', ''Tell me more.''),
            (''user'', ''My answer.''), (''assistant'', ''Tell me more.''),
            (''user'', ''What next?'')]"
proof -
  have l: "length (conversation_history (jane_after 15)) = 30"
    by (simp add: jane_after_length)
  have l10: "length (conversation_history (jane_after 10)) = 20"
    by (simp add: jane_after_length)
  have c: "current_phase (jane_after 15) = 4" "questions_asked_in_phase (jane_after 15) = 2"
    using jane_after_15 by (simp_all add: counters_def)
  have h: "1 \<le> current_phase (jane_after 15) \<and> current_phase (jane_after 15) \<le> 4
        \<and> \<not> (phase_quota (current_phase (jane_after 15))
                \<le> questions_asked_in_phase (jane_after 15)
              \<and> current_phase (jane_after 15) = 4)"
    by (simp add: c)
  note t = generation_window[of "jane_after 15" question_port "''What next?''"]
  from t l have "tl (generation_request (jane_after 15))
       = map (\<lambda>msg. (case role msg of System \<Rightarrow> ''system'' | Assistant \<Rightarrow> ''assistant''
                        | User \<Rightarrow> ''user'', content msg))
           (drop 20 (conversation_history (jane_after 15)))"
    by blast
  then have w: "tl (generation_request (jane_after 15))
       = [(''user'', ''My answer.''), (''assistant'', ''Tell me more.''),
          (''user'', ''My answer.''), (''assistant'', ''Tell me more.''),
          (''user'', ''My answer.''), (''assistant'', ''Tell me more.''),
          (''user'', ''My answer.''), (''assistant'', ''Tell me more.''),
          (''user'', ''My answer.''), (''assistant'', ''Tell me more.'')]"
    by (simp add: jane_after_15_history l10)
  from t h have "fst (process_candidate_response question_port ''What next?'' (jane_after 15))
       = question_port ((''system'',
                    if phase_quota (current_phase (jane_after 15))
                         \<le> questions_asked_in_phase (jane_after 15)
                    then system_prompt_text (candidate_profile (jane_after 15))
                           (job_description (jane_after 15)) (current_phase (jane_after 15) + 1)
                    else system_prompt (jane_after 15))
                   # map (\<lambda>msg. (case role msg of System \<Rightarrow> ''system''
                                    | Assistant \<Rightarrow> ''assistant'' | User \<Rightarrow> ''user'', content msg))
                       (drop (length (conversation_history (jane_after 15)) + 1 - 10)
                          (conversation_history (jane_after 15)
                             @ [\<lparr>role = User, content = ''What next?''\<rparr>])))"
    by blast
  also have "(''system'',
                    if phase_quota (current_phase (jane_after 15))
                         \<le> questions_asked_in_phase (jane_after 15)
                    then system_prompt_text (candidate_profile (jane_after 15))
                           (job_description (jane_after 15)) (current_phase (jane_after 15) + 1)
                    else system_prompt (jane_after 15))
                   # map (\<lambda>msg. (case role msg of System \<Rightarrow> ''system''
                                    | Assistant \<Rightarrow> ''assistant'' | User \<Rightarrow> ''user'', content msg))
                       (drop (length (conversation_history (jane_after 15)) + 1 - 10)
                          (conversation_history (jane_after 15)
                             @ [\<lparr>role = User, content = ''What next?''\<rparr>]))
       = [(''system'', system_prompt (jane_after 15)),
            (''assistant'', ''Tell me more.''),
            (''user'', ''My answer.''), (''assistant'', ''Tell me more.''),
            (''user'', ''My answer.''), (''assistant'', ''Tell me more.''),
            (''user'', ''My answer.''), (''assistant'', ''Tell me more.''),
            (''user'', ''My answer.''), (''assistant'', ''Tell me more.''),
            (''user'', ''What next?'')]"
    by (simp add: l c) (simp add: jane_after_15_history l10)
  finally have p: "fst (process_candidate_response question_port ''What next?'' (jane_after 15))
       = question_port
           [(''system'', system_prompt (jane_after 15)),
            (''assistant'', ''Tell me more.''),
            (''user'', ''My answer.''), (''assistant'', ''Tell me more.''),
            (''user'', ''My answer.''), (''assistant'', ''Tell me more.''),
            (''user'', ''My answer.''), (''assistant'', ''Tell me more.''),
            (''user'', ''My answer.''), (''assistant'', ''Tell me more.''),
            (''user'', ''What next?'')]" .
  from l w p show ?thesis by (intro conjI)
qed

section \<open>The job title\<close>

lemma split_from_Nil: "split_from sep cur [] = [cur]"
  by (subst split_from.simps) simp

lemma split_from_Cons:
  "split_from sep cur (x # xs) =
     (if sep \<noteq> [] \<and> starts_with (x # xs) sep
      then cur # split_from sep [] (drop (length sep) (x # xs))
      else split_from sep (cur @ [x]) xs)"
  by (subst split_from.simps) simp

lemma first_piece:
  "\<exists>rest. split_from [c] cur s = (cur @ takeWhile (\<lambda>x. x \<noteq> c) s) # rest"
proof (induction s arbitrary: cur)
  case Nil
  show ?case by (simp add: split_from_Nil)
next
  case (Cons x xs)
  show ?case
  proof (cases "x = c")
    case True
    then show ?thesis by (simp add: split_from_Cons starts_with_def)
  next
    case False
    then show ?thesis
      using Cons.IH[of "cur @ [x]"]
      by (simp add: split_from_Cons starts_with_def)
  qed
qed

lemma starts_with_iff: "starts_with s sub \<longleftrightarrow> (\<exists>v. s = sub @ v)"
proof
  assume "starts_with s sub"
  then have "s = sub @ drop (length sub) s"
    unfolding starts_with_def by (metis append_take_drop_id)
  then show "\<exists>v. s = sub @ v" ..
next
  assume "\<exists>v. s = sub @ v"
  then show "starts_with s sub" by (auto simp add: starts_with_def)
qed

lemma contains_iff: "contains sub s \<longleftrightarrow> (\<exists>u v. s = u @ sub @ v)"
proof (induction s)
  case Nil
  show ?case by auto
next
  case (Cons c cs)
  show ?case
  proof
    assume "contains sub (c # cs)"
    then consider "starts_with (c # cs) sub" | "contains sub cs" by auto
    then show "\<exists>u v. c # cs = u @ sub @ v"
    proof cases
      case 1
      then obtain v where "c # cs = sub @ v" using starts_with_iff by blast
      then have "c # cs = [] @ sub @ v" by simp
      then show ?thesis by blast
    next
      case 2
      then obtain u v where "cs = u @ sub @ v" using Cons.IH by blast
      then have "c # cs = (c # u) @ sub @ v" by simp
      then show ?thesis by blast
    qed
  next
    assume "\<exists>u v. c # cs = u @ sub @ v"
    then obtain u v where uv: "c # cs = u @ sub @ v" by blast
    show "contains sub (c # cs)"
    proof (cases u)
      case Nil
      then have "starts_with (c # cs) sub" using uv starts_with_iff by auto
      then show ?thesis by simp
    next
      case (Cons d u')
      then have "cs = u' @ sub @ v" using uv by simp
      then have "contains sub cs" using Cons.IH by blast
      then show ?thesis by simp
    qed
  qed
qed

lemma title_senior: "extract_job_title ''Senior Backend Engineer'' = ''Senior Backend Engineer''"
  by code_simp

lemma title_hiring: "extract_job_title ''We are hiring!'' = default_title"
  by code_simp

lemma title_padded: "extract_job_title ''  Senior Backend Engineer'' = ''Senior Backend Engineer''"
  by code_simp


text \<open>
  C9 as stated fails: the first line of this job description is non-empty, shorter
  than 100 characters and contains the keyword \<open>engineer\<close>, but the derived title is
  neither that line verbatim nor the default title: the code strips the line.
\<close>

theorem padded_title_not_verbatim:
  "length ''  Senior Backend Engineer'' < 100
   \<and> contains ''engineer'' (lower ''  Senior Backend Engineer'')
   \<and> extract_job_title ''  Senior Backend Engineer'' \<noteq> ''  Senior Backend Engineer''
   \<and> extract_job_title ''  Senior Backend Engineer'' \<noteq> default_title"
  by code_simp

text \<open>
  C9 (amended). The derived title is the first line of the job description with
  leading and trailing whitespace stripped, if and only if that stripped line is
  shorter than 100 characters and its lower-cased form contains one of the keywords
  engineer, developer, software, architect, scientist; otherwise it is the default
  title \<open>Software Engineer\<close>. A first line \<open>Senior Backend Engineer\<close> yields itself,
  a first line \<open>We are hiring!\<close> the default title.
\<close>

theorem job_title_is_stripped_first_line:
  "extract_job_title jd =
     (if length (strip (takeWhile (\<lambda>c. c \<noteq> CHR 0x0A) jd)) < 100
         \<and> (\<exists>keyword \<in> set title_keywords. \<exists>u v.
               lower (strip (takeWhile (\<lambda>c. c \<noteq> CHR 0x0A) jd)) = u @ keyword @ v)
      then strip (takeWhile (\<lambda>c. c \<noteq> CHR 0x0A) jd)
      else default_title)
   \<and> title_keywords = [''engineer'', ''developer'', ''software'', ''architect'', ''scientist'']
   \<and> default_title = ''Software Engineer''
   \<and> extract_job_title ''Senior Backend Engineer'' = ''Senior Backend Engineer''
   \<and> extract_job_title ''We are hiring!'' = default_title"
proof -
  obtain rest where sp: "split jd ''\<newline>'' = takeWhile (\<lambda>c. c \<noteq> CHR 0x0A) jd # rest"
    using first_piece[of "CHR 0x0A" "[]" jd] by (auto simp add: split_def)
  have ex: "list_ex (\<lambda>keyword. contains keyword s) title_keywords
      \<longleftrightarrow> (\<exists>keyword \<in> set title_keywords. \<exists>u v. s = u @ keyword @ v)" for s
    by (simp only: list_ex_iff contains_iff)
  have main: "extract_job_title jd =
     (if length (strip (takeWhile (\<lambda>c. c \<noteq> CHR 0x0A) jd)) < 100
         \<and> (\<exists>keyword \<in> set title_keywords. \<exists>u v.
               lower (strip (takeWhile (\<lambda>c. c \<noteq> CHR 0x0A) jd)) = u @ keyword @ v)
      then strip (takeWhile (\<lambda>c. c \<noteq> CHR 0x0A) jd)
      else default_title)"
    unfolding extract_job_title_def sp by (simp only: list.case Let_def ex)
  from main title_senior title_hiring show ?thesis
    by (simp only: title_keywords_def default_title_def simp_thms)
qed

text \<open>An indented first line satisfies the condition and is returned stripped.\<close>

theorem job_title_is_stripped_first_line_witness:
  "extract_job_title ''  Senior Backend Engineer''
     = strip (takeWhile (\<lambda>c. c \<noteq> CHR 0x0A) ''  Senior Backend Engineer'')
   \<and> strip (takeWhile (\<lambda>c. c \<noteq> CHR 0x0A) ''  Senior Backend Engineer'')
       = ''Senior Backend Engineer''"
proof -
  have s: "strip (takeWhile (\<lambda>c. c \<noteq> CHR 0x0A) ''  Senior Backend Engineer'')
      = ''Senior Backend Engineer''"
    by code_simp
  have l: "lower ''Senior Backend Engineer'' = ''senior backend '' @ ''engineer'' @ []"
    by code_simp
  have k: "''engineer'' \<in> set title_keywords" by (simp add: title_keywords_def)
  have "\<exists>keyword \<in> set title_keywords. \<exists>u v.
      lower (strip (takeWhile (\<lambda>c. c \<noteq> CHR 0x0A) ''  Senior Backend Engineer''))
        = u @ keyword @ v"
    unfolding s using k l by blast
  moreover have "length (strip (takeWhile (\<lambda>c. c \<noteq> CHR 0x0A) ''  Senior Backend Engineer'')) < 100"
    unfolding s by simp
  ultimately have "extract_job_title ''  Senior Backend Engineer''
     = strip (takeWhile (\<lambda>c. c \<noteq> CHR 0x0A) ''  Senior Backend Engineer'')"
    using job_title_is_stripped_first_line[of "''  Senior Backend Engineer''"]
    by (simp only: if_True simp_thms)
  then show ?thesis using s by (rule conjI)
qed

section \<open>Report generation\<close>

lemma exn_bind_Inr:
  "exn_bind m f = Inr y \<longleftrightarrow> (\<exists>x. m = Inr x \<and> f x = Inr y)"
  by (cases m) (simp_all add: exn_bind_def)

lemma exn_bind_simps [simp]:
  "exn_bind (Inl e) f = Inl e" "exn_bind (Inr x) f = f x"
  by (simp_all add: exn_bind_def)

lemma coerce_Inr: "coerce f v = Inr x \<longleftrightarrow> f v = Some x"
  by (simp add: coerce_def split: option.splits)

lemma PhaseScore_Inr:
  "PhaseScore n nm ta ps c d avg = Inr s \<Longrightarrow>
   valid_phase_score s \<and> technical_accuracy s = ta \<and> problem_solving s = ps
   \<and> communication s = c \<and> depth_of_knowledge s = d \<and> average_score s = avg"
  by (auto simp add: PhaseScore_def valid_phase_score_def split: if_splits)

lemma parse_phase_score_Inr:
  assumes "parse_phase_score lib phase = Inr s"
  shows "valid_phase_score s
   \<and> (\<exists>va vb vc vd.
        subscript phase ''technical_accuracy'' = Inr va \<and> py_float lib va = Inr (technical_accuracy s)
      \<and> subscript phase ''problem_solving'' = Inr vb \<and> py_float lib vb = Inr (problem_solving s)
      \<and> subscript phase ''communication'' = Inr vc \<and> py_float lib vc = Inr (communication s)
      \<and> subscript phase ''depth_of_knowledge'' = Inr vd \<and> py_float lib vd = Inr (depth_of_knowledge s))
   \<and> average_score s =
       float_div lib
         (float_add lib
            (float_add lib (float_add lib (technical_accuracy s) (problem_solving s))
               (communication s))
            (depth_of_knowledge s))
         (Finite 4)"
proof -
  from assms obtain pn pname va ta vb ps vc c vd d n nm where
    a: "subscript phase ''technical_accuracy'' = Inr va" "py_float lib va = Inr ta"
       "subscript phase ''problem_solving'' = Inr vb" "py_float lib vb = Inr ps"
       "subscript phase ''communication'' = Inr vc" "py_float lib vc = Inr c"
       "subscript phase ''depth_of_knowledge'' = Inr vd" "py_float lib vd = Inr d"
    and p: "PhaseScore n nm ta ps c d
         (float_div lib (float_add lib (float_add lib (float_add lib ta ps) c) d) (Finite 4))
        = Inr s"
    unfolding parse_phase_score_def exn_bind_Inr by blast
  from PhaseScore_Inr[OF p] a show ?thesis by simp
qed

lemma parse_phase_list_Inr:
  "parse_phase_list lib phases = Inr pss \<Longrightarrow>
   \<forall>s \<in> set pss. \<exists>phase \<in> set phases. parse_phase_score lib phase = Inr s"
proof (induction phases arbitrary: pss)
  case Nil
  then show ?case by simp
next
  case (Cons phase rest)
  from Cons.prems obtain s ss where
    s: "parse_phase_score lib phase = Inr s" and ss: "parse_phase_list lib rest = Inr ss"
    and pss: "pss = s # ss"
    by (auto simp add: exn_bind_Inr)
  from Cons.IH[OF ss] s pss show ?case by auto
qed

lemma parse_phase_scores_Inr:
  "parse_phase_scores lib phase_data = Inr pss \<Longrightarrow>
   \<forall>s \<in> set pss. \<exists>phase. parse_phase_score lib phase = Inr s"
  unfolding parse_phase_scores_def exn_bind_Inr
  using parse_phase_list_Inr by blast

lemma InterviewReport_Inr:
  "InterviewReport sid cname title score rec pss str weak summ highlights raw = Inr r \<Longrightarrow>
   ge0_le10 (overall_score r) \<and> recommendation r \<in> set recommendations \<and> phase_scores r = pss"
  by (auto simp add: InterviewReport_def split: if_splits)

lemma try_Inr:
  assumes "generate_report_try lib port st = Inr r"
  shows "ge0_le10 (overall_score r) \<and> recommendation r \<in> set recommendations
     \<and> (\<exists>phase_data. parse_phase_scores lib phase_data = Inr (phase_scores r))"
proof -
  from assms obtain score' rec' pss str weak summ' highlights' raw phase_data where
    p: "parse_phase_scores lib phase_data = Inr pss"
    and r: "InterviewReport (st_session_id st) (name (st_candidate_profile st))
         (extract_job_title (st_job_description st))
         score' rec' pss str weak summ' highlights' (Some raw) = Inr r"
    unfolding generate_report_try_def exn_bind_Inr by blast
  from InterviewReport_Inr[OF r] p show ?thesis by auto
qed

lemma fallback_scores:
  "collect (map fallback_phase_score (enumerate 0 PHASES)) =
     Inr (map (\<lambda>ip. \<lparr>phase_number = int (fst ip) + 1, phase_name = ph_name (snd ip),
                     technical_accuracy = Finite 5, problem_solving = Finite 5,
                     communication = Finite 5, depth_of_knowledge = Finite 5,
                     average_score = Finite 5\<rparr>) (enumerate 0 PHASES))"
  by (simp add: PHASES_def fallback_phase_score_def PhaseScore_def ge0_le10_def)

lemma fallback_Inr:
  "\<exists>r. generate_fallback_report st = Inr r
     \<and> valid_report r
     \<and> overall_score r = Finite 5 \<and> recommendation r = ''maybe''
     \<and> map phase_number (phase_scores r) = [1, 2, 3, 4]
     \<and> map phase_name (phase_scores r) = map ph_name PHASES
     \<and> (\<forall>s \<in> set (phase_scores r).
           technical_accuracy s = Finite 5 \<and> problem_solving s = Finite 5
         \<and> communication s = Finite 5 \<and> depth_of_knowledge s = Finite 5
         \<and> average_score s = Finite 5)"
  unfolding generate_fallback_report_def fallback_scores
  by (simp add: InterviewReport_def ge0_le10_def recommendations_def valid_report_def
        valid_phase_score_def PHASES_def)

text \<open>
  C4. For every library, port and interview state, \<open>generate_report\<close> returns a report
  and does not raise, and the report satisfies the constraints of the schema.
  Whenever the \<open>try\<close> block raises, the report is the neutral fallback: overall score
  5.0, recommendation \<open>maybe\<close>, and one entry for each of the 4 catalog phases,
  numbered 1 to 4 and named after them, whatever phase the session had reached,
  each with the four sub-scores and the average at 5.0. The block raises when the
  port fails, when the content is \<open>null\<close>, and when the text cannot be parsed.
\<close>

theorem generate_report_total:
  "(\<exists>report. generate_report lib port st candidate_skills = Inr report
      \<and> valid_report report
      \<and> ((\<exists>e. generate_report_try lib port st = Inl e) \<longrightarrow>
            overall_score report = Finite 5 \<and> recommendation report = ''maybe''
          \<and> map phase_number (phase_scores report) = [1, 2, 3, 4]
          \<and> map phase_name (phase_scores report) = map ph_name PHASES
          \<and> (\<forall>s \<in> set (phase_scores report).
                technical_accuracy s = Finite 5 \<and> problem_solving s = Finite 5
              \<and> communication s = Finite 5 \<and> depth_of_knowledge s = Finite 5
              \<and> average_score s = Finite 5)))
   \<and> (port (assessment_messages st) = Inl e \<longrightarrow> generate_report_try lib port st = Inl e)
   \<and> (port (assessment_messages st) = Inr None \<longrightarrow>
        generate_report_try lib port st = Inl TypeError)
   \<and> (port (assessment_messages st) = Inr (Some text) \<and> (\<forall>s. json_loads lib s = None) \<longrightarrow>
        (\<exists>e'. generate_report_try lib port st = Inl e'))"
proof -
  have total: "\<exists>report. generate_report lib port st candidate_skills = Inr report
      \<and> valid_report report
      \<and> ((\<exists>e. generate_report_try lib port st = Inl e) \<longrightarrow>
            overall_score report = Finite 5 \<and> recommendation report = ''maybe''
          \<and> map phase_number (phase_scores report) = [1, 2, 3, 4]
          \<and> map phase_name (phase_scores report) = map ph_name PHASES
          \<and> (\<forall>s \<in> set (phase_scores report).
                technical_accuracy s = Finite 5 \<and> problem_solving s = Finite 5
              \<and> communication s = Finite 5 \<and> depth_of_knowledge s = Finite 5
              \<and> average_score s = Finite 5))"
  proof (cases "generate_report_try lib port st")
    case (Inl e)
    then have "generate_report lib port st candidate_skills = generate_fallback_report st"
      by (simp add: generate_report_def)
    then show ?thesis using fallback_Inr[of st] by auto
  next
    case (Inr r)
    then have g: "generate_report lib port st candidate_skills = Inr r"
      by (simp add: generate_report_def)
    from try_Inr[OF Inr] obtain phase_data where
      v: "ge0_le10 (overall_score r)" "recommendation r \<in> set recommendations"
      and p: "parse_phase_scores lib phase_data = Inr (phase_scores r)"
      by blast
    have "\<forall>s \<in> set (phase_scores r). valid_phase_score s"
      using parse_phase_scores_Inr[OF p] parse_phase_score_Inr by blast
    then have "valid_report r"
      using v by (simp add: valid_report_def list_all_iff)
    then show ?thesis using g Inr by simp
  qed
  have fail: "port (assessment_messages st) = Inl e \<longrightarrow> generate_report_try lib port st = Inl e"
    by (simp add: generate_report_try_def)
  have null: "port (assessment_messages st) = Inr None \<longrightarrow>
        generate_report_try lib port st = Inl TypeError"
    by (simp add: generate_report_try_def parse_assessment_response_def)
  have "parse_assessment_response lib (Some text) = Inr d \<Longrightarrow> \<exists>s. json_loads lib s = Some d" for d
    by (auto simp add: parse_assessment_response_def exn_bind_Inr split: option.splits)
  then have "\<forall>s. json_loads lib s = None \<Longrightarrow> \<exists>e'. parse_assessment_response lib (Some text) = Inl e'"
    by (cases "parse_assessment_response lib (Some text)") auto
  then have garbled: "port (assessment_messages st) = Inr (Some text) \<and> (\<forall>s. json_loads lib s = None)
      \<longrightarrow> (\<exists>e'. generate_report_try lib port st = Inl e')"
    by (auto simp add: generate_report_try_def)
  from total fail null garbled show ?thesis by blast
qed

text \<open>An answer that is no JSON, on the state of the scenario: the fallback.\<close>

lemma garbled_parse:
  "parse_assessment_response exact_lib (Some ''I cannot assess this candidate.'') = Inl ValueError"
  by code_simp

lemma garbled_try: "generate_report_try exact_lib garbled_port st = Inl ValueError"
  by (simp only: generate_report_try_def garbled_port_def garbled_parse exn_bind_simps)

theorem generate_report_total_witness:
  "generate_report_try exact_lib garbled_port jane_state = Inl ValueError
   \<and> map_sum id overall_score (generate_report exact_lib garbled_port jane_state [])
       = Inr (Finite 5)
   \<and> map_sum id recommendation (generate_report exact_lib garbled_port jane_state [])
       = Inr ''maybe''
   \<and> map_sum id (\<lambda>r. map phase_number (phase_scores r))
        (generate_report exact_lib garbled_port jane_state []) = Inr [1, 2, 3, 4]"
proof -
  have f: "\<exists>e. generate_report_try exact_lib garbled_port jane_state = Inl e"
    using garbled_try by blast
  note t = generate_report_total[of exact_lib garbled_port jane_state "[]" PortException "[]",
      THEN conjunct1]
  from t show ?thesis
  proof (elim exE conjE)
    fix report
    assume r: "generate_report exact_lib garbled_port jane_state [] = Inr report"
      and i: "(\<exists>e. generate_report_try exact_lib garbled_port jane_state = Inl e) \<longrightarrow>
            overall_score report = Finite 5 \<and> recommendation report = ''maybe''
          \<and> map phase_number (phase_scores report) = [1, 2, 3, 4]
          \<and> map phase_name (phase_scores report) = map ph_name PHASES
          \<and> (\<forall>s \<in> set (phase_scores report).
                technical_accuracy s = Finite 5 \<and> problem_solving s = Finite 5
              \<and> communication s = Finite 5 \<and> depth_of_knowledge s = Finite 5
              \<and> average_score s = Finite 5)"
    from i f have "overall_score report = Finite 5 \<and> recommendation report = ''maybe''
          \<and> map phase_number (phase_scores report) = [1, 2, 3, 4]"
      by (simp only: simp_thms)
    then show ?thesis using garbled_try[of jane_state] r by simp
  qed
qed








end
